theory Spec2Isabelle
  imports Complex_Main "HOL-Library.Sublist"
begin

section \<open>JavaScript strings\<close>

text \<open>
  A JavaScript string is a sequence of UTF-16 code units. The model uses \<^typ>\<open>string\<close>,
  whose characters are the code units below 256; every character this program tests for
  (space, tab, line feed, carriage return, quote, hyphen, colon, the ASCII letters and digits)
  lies in that range.
\<close>

definition LF :: char where
  "LF = CHR 0x0A"

definition CR :: char where
  "CR = CHR 0x0D"

definition TAB :: char where
  "TAB = CHR 0x09"

text \<open>
  White space as \<open>String.prototype.trim\<close> and the regular expression class \<open>\s\<close> see it,
  among the code units below 256: tab, line feed, vertical tab, form feed, carriage return,
  space and the no-break space.
\<close>

definition js_space :: "char \<Rightarrow> bool" where
  "js_space c = (c = CHR 0x09 \<or> c = CHR 0x0A \<or> c = CHR 0x0B \<or> c = CHR 0x0C \<or>
                 c = CHR 0x0D \<or> c = CHR 0x20 \<or> c = CHR 0xA0)"

definition trimStart :: "string \<Rightarrow> string" where
  "trimStart s = dropWhile js_space s"

definition trimEnd :: "string \<Rightarrow> string" where
  "trimEnd s = rev (dropWhile js_space (rev s))"

definition trim :: "string \<Rightarrow> string" where
  "trim s = trimEnd (trimStart s)"

text \<open>
  \<open>s.split(sep)\<close> for a string separator: the pieces between the leftmost,
  non-overlapping occurrences of \<open>sep\<close>; the empty separator cuts between all code units.
  \<open>split_from sep cur s\<close> scans \<open>s\<close> with the current piece \<open>cur\<close> held in reverse.
\<close>

function split_from :: "string \<Rightarrow> string \<Rightarrow> string \<Rightarrow> string list" where
  "split_from sep cur [] = [rev cur]"
| "split_from sep cur (c # cs) =
     (if sep \<noteq> [] \<and> prefix sep (c # cs)
      then rev cur # split_from sep [] (drop (length sep) (c # cs))
      else split_from sep (c # cur) cs)"
  by pat_completeness auto
termination
  by (relation "measure (\<lambda>(sep, cur, s). length s)") (auto simp: neq_Nil_conv)

definition split :: "string \<Rightarrow> string \<Rightarrow> string list" where
  "split s sep = (if sep = [] then map (\<lambda>c. [c]) s else split_from sep [] s)"

text \<open>\<open>xs.join(sep)\<close>.\<close>

fun join :: "string list \<Rightarrow> string \<Rightarrow> string" where
  "join [] sep = []"
| "join [x] sep = x"
| "join (x # y # ys) sep = x @ sep @ join (y # ys) sep"

text \<open>
  \<open>s.replace(pat, rep)\<close> for a string pattern: only the leftmost occurrence is replaced.
  The program only calls it with the replacement \<open>''''\<close>, which has no \<open>$\<close> patterns.
\<close>

fun replace :: "string \<Rightarrow> string \<Rightarrow> string \<Rightarrow> string" where
  "replace [] pat rep = (if pat = [] then rep else [])"
| "replace (c # cs) pat rep =
     (if prefix pat (c # cs) then rep @ drop (length pat) (c # cs)
      else c # replace cs pat rep)"

text \<open>\<open>s.replaceAll(c, '')\<close> for a one-character pattern.\<close>

definition removeAll_char :: "char \<Rightarrow> string \<Rightarrow> string" where
  "removeAll_char c s = filter (\<lambda>d. d \<noteq> c) s"

text \<open>\<open>s.padStart(n, '0')\<close>.\<close>

definition padStart :: "nat \<Rightarrow> char \<Rightarrow> string \<Rightarrow> string" where
  "padStart n c s = replicate (n - length s) c @ s"

text \<open>\<open>String(n)\<close> for an integer \<open>n\<close> (below the range where exponents are printed).\<close>

definition digit_char :: "nat \<Rightarrow> char" where
  "digit_char d = char_of (48 + d)"

fun digits :: "nat \<Rightarrow> string" where
  "digits n = (if n < 10 then [digit_char n] else digits (n div 10) @ [digit_char (n mod 10)])"

declare digits.simps [simp del]

definition String_of_int :: "int \<Rightarrow> string" where
  "String_of_int i = (if i < 0 then CHR ''-'' # digits (nat (- i)) else digits (nat i))"

section \<open>The tracklist parser\<close>

record Track =
  timestamp :: string
  artist :: string
  title :: string

text \<open>Source: \<open>after(value, delimiter)\<close>.\<close>

definition after :: "string \<Rightarrow> string \<Rightarrow> string" where
  "after val delimiter =
     (if val = [] then val
      else let substrings = split val delimiter
           in if length substrings = 1 then val
              else join (tl substrings) delimiter)"

text \<open>
  The body of the \<open>map\<close> callback of \<open>parseTracklist\<close>, for the line at \<open>index\<close>:
  the constants \<open>timestamp\<close> and \<open>withoutTimestamp\<close> of the source, then the entry.
\<close>

definition lineTimestamp :: "string \<Rightarrow> string" where
  "lineTimestamp line = (let first = hd (split line '' '') in if first = [] then ''0:00'' else first)"

definition withoutTimestamp :: "string \<Rightarrow> string" where
  "withoutTimestamp line = removeAll_char CR (after line (lineTimestamp line @ '' ''))"

definition parseLine :: "string \<Rightarrow> nat \<Rightarrow> Track" where
  "parseLine line index =
     (let ts = lineTimestamp line;
          ttl = after (withoutTimestamp line) '' - '';
          art = replace (withoutTimestamp line) ('' - '' @ ttl) []
      in \<lparr> timestamp = (if index = 0 then ''00:00'' else ts), artist = art, title = ttl \<rparr>)"

definition tracklistLines :: "string \<Rightarrow> string list" where
  "tracklistLines tracklist = split (trim tracklist) [LF]"

definition parseTracklist :: "string \<Rightarrow> Track list" where
  "parseTracklist tracklist =
     (let lines = tracklistLines tracklist
      in map (\<lambda>(line, index). parseLine line index) (zip lines [0 ..< length lines]))"

text \<open>\<open>s.includes(pat)\<close>: whether \<open>pat\<close> occurs in \<open>s\<close>.\<close>

fun js_includes :: "string \<Rightarrow> string \<Rightarrow> bool" where
  "js_includes [] pat = (pat = [])"
| "js_includes (c # cs) pat = (prefix pat (c # cs) \<or> js_includes cs pat)"

section \<open>The CUE serializer\<close>

definition QUOTE :: char where
  "QUOTE = CHR 0x22"

definition timeToFrames :: "string \<Rightarrow> string" where
  "timeToFrames time = time @ '':00''"

text \<open>The text that one turn of the loop of \<open>generateCueFileContent\<close> appends, for track \<open>i\<close>.\<close>

definition cueTrackText :: "nat \<Rightarrow> Track \<Rightarrow> string" where
  "cueTrackText i track =
     [TAB] @ ''TRACK '' @ padStart 2 (CHR ''0'') (String_of_int (int i + 1)) @ '' AUDIO'' @ [LF] @
     [TAB, TAB] @ ''TITLE '' @ [QUOTE] @ Track.title track @ [QUOTE] @ [LF] @
     [TAB, TAB] @ ''PERFORMER '' @ [QUOTE] @ artist track @ [QUOTE] @ [LF] @
     [TAB, TAB] @ ''INDEX 01 '' @ timeToFrames (timestamp track) @ [LF]"

fun cueTracksFrom :: "nat \<Rightarrow> Track list \<Rightarrow> string \<Rightarrow> string" where
  "cueTracksFrom i [] cueContent = cueContent"
| "cueTracksFrom i (track # tracks) cueContent =
     cueTracksFrom (Suc i) tracks (cueContent @ cueTrackText i track)"

definition generateCueFileContent :: "Track list \<Rightarrow> string \<Rightarrow> string \<Rightarrow> string" where
  "generateCueFileContent tracks albumTitle filename =
     (let cueContent = ''TITLE '' @ [QUOTE] @ albumTitle @ [QUOTE] @ [LF];
          cueContent = cueContent @ ''FILE '' @ [QUOTE] @ filename @ [QUOTE] @ '' MP3'' @ [LF]
      in trimEnd (cueTracksFrom 0 tracks cueContent) @ [LF])"

section \<open>Time conversion\<close>

text \<open>
  A JavaScript number is modelled by a rational with exact arithmetic: the model leaves out
  the rounding of IEEE doubles, \<open>NaN\<close> and the infinities. Comparisons of doubles are
  exact, so they are comparisons of the rationals the doubles stand for.
\<close>

text \<open>\<open>x % y\<close> on numbers (\<open>y\<close> not zero): the remainder has the sign of \<open>x\<close>.\<close>

definition js_trunc :: "rat \<Rightarrow> int" where
  "js_trunc q = (if q < 0 then \<lceil>q\<rceil> else \<lfloor>q\<rfloor>)"

definition js_rem :: "rat \<Rightarrow> rat \<Rightarrow> rat" where
  "js_rem x y = x - y * of_int (js_trunc (x / y))"

text \<open>\<open>Math.round\<close>: to the nearest integer, a tie towards plus infinity.\<close>

definition Math_round :: "rat \<Rightarrow> int" where
  "Math_round x = \<lfloor>x + 1 / 2\<rfloor>"

definition formatTime :: "rat \<Rightarrow> string" where
  "formatTime seconds0 =
     (let hours = \<lfloor>seconds0 / 3600\<rfloor>;
          seconds = js_rem seconds0 3600;
          minutes = \<lfloor>seconds / 60\<rfloor>;
          remainingSeconds = js_rem seconds 60;
          hh = padStart 2 (CHR ''0'') (String_of_int hours);
          mm = padStart 2 (CHR ''0'') (String_of_int minutes);
          ss = padStart 2 (CHR ''0'') (String_of_int \<lfloor>remainingSeconds\<rfloor>);
          ms = padStart 3 (CHR ''0'')
                 (String_of_int (Math_round ((remainingSeconds - of_int \<lfloor>remainingSeconds\<rfloor>) * 1000)))
      in hh @ '':'' @ mm @ '':'' @ ss @ ''.'' @ ms)"

record CueTime =
  min_t :: int
  sec_t :: int
  frame_t :: int

definition cueTimeToSeconds :: "CueTime \<Rightarrow> rat" where
  "cueTimeToSeconds t = of_int (min_t t) * 60 + of_int (sec_t t) + of_int (frame_t t) / 75"

section \<open>File name sanitization\<close>

text \<open>The class \<open>[^a-zA-Z0-9\s\-_.]\<close> is the complement of \<open>filename_char\<close>.\<close>

definition alnum :: "char \<Rightarrow> bool" where
  "alnum c = (let n = (of_char c :: nat)
              in (97 \<le> n \<and> n \<le> 122) \<or> (65 \<le> n \<and> n \<le> 90) \<or> (48 \<le> n \<and> n \<le> 57))"

definition filename_char :: "char \<Rightarrow> bool" where
  "filename_char c = (alnum c \<or> js_space c \<or> c = CHR ''-'' \<or> c = CHR ''_'' \<or> c = CHR ''.'')"

text \<open>\<open>s.replace(/\s+/g, ' ')\<close>: every maximal run of white space becomes one space.\<close>

function collapse_spaces :: "string \<Rightarrow> string" where
  "collapse_spaces [] = []"
| "collapse_spaces (c # cs) =
     (if js_space c then CHR '' '' # collapse_spaces (dropWhile js_space cs)
      else c # collapse_spaces cs)"
  by pat_completeness auto
termination
  by (relation "measure length") (auto simp: less_Suc_eq_le length_dropWhile_le)

definition sanitize :: "string \<Rightarrow> string" where
  "sanitize s = trim (collapse_spaces (filter filename_char s))"

section \<open>The world outside the program\<close>

text \<open>
  What the program does to its surroundings is a trace of events, in the order of the
  calls: the console lines it prints and the file system and process calls it makes. A console
  line that interpolates a number carries the number instead of its text.
\<close>

text \<open>An \<open>Error\<close> object is its message; a failure of the file system is its code and path.\<close>

datatype error =
    Error string
  | FsError string string

fun error_message :: "error \<Rightarrow> string" where
  "error_message (Error m) = m"
| "error_message (FsError code path) = code @ '': '' @ path"

datatype message =
    Text string
  | TotalDuration rat
  | SkippingInvalidSegment int rat rat
  | MissingIndex01
  | ErrorProcessingFiles error

datatype event =
    ConsoleLog message
  | ConsoleWarn message
  | ConsoleError message
  | ExistsSync string
  | ReadFile string
  | WriteFile string string
  | Mkdir string
  | CueParserParse string
  | Spawn string "string list"

text \<open>How a spawned process ends: the \<open>error\<close> event, or \<open>close\<close> with an exit code.\<close>

datatype proc_outcome =
    SpawnError string
  | Closed int string string

text \<open>The sheet that the CUE grammar library hands to \<open>parseCueFile\<close>, as the adapter reads it.\<close>

record CueIndex =
  idx_number :: int
  idx_time :: CueTime

record SheetTrack =
  trk_number :: int
  trk_title :: string
  trk_performer :: "string option"
  trk_indexes :: "CueIndex list"

record SheetFile =
  file_name :: string
  file_tracks :: "SheetTrack list"

record CueSheet =
  sheet_title :: "string option"
  sheet_performer :: "string option"
  sheet_files :: "SheetFile list"

text \<open>
  The collaborators the program calls and does not implement: the \<open>node:path\<close> functions,
  the CUE grammar library (from the text of a file to a sheet, or the message of its
  exception), the outcome of a spawned process (which may depend on everything that
  happened before), \<open>parseFloat\<close> (\<open>None\<close> for \<open>NaN\<close>), and whether the file system
  lets a path be written or a directory be made.
\<close>

record env =
  path_join :: "string \<Rightarrow> string \<Rightarrow> string"
  path_dirname :: "string \<Rightarrow> string"
  path_resolve :: "string \<Rightarrow> string"
  path_extname :: "string \<Rightarrow> string"
  cue_grammar :: "string \<Rightarrow> string + CueSheet"
  run_process :: "event list \<Rightarrow> string \<Rightarrow> string list \<Rightarrow> proc_outcome"
  parseFloat :: "string \<Rightarrow> rat option"
  writable :: "string \<Rightarrow> bool"
  mkdir_ok :: "string \<Rightarrow> bool"

record world =
  files :: "string \<rightharpoonup> string"
  dirs :: "string set"
  events :: "event list"

definition emit :: "event \<Rightarrow> world \<Rightarrow> world" where
  "emit e w = w\<lparr>events := events w @ [e]\<rparr>"

definition existsSync :: "string \<Rightarrow> world \<Rightarrow> bool \<times> world" where
  "existsSync p w = (files w p \<noteq> None \<or> p \<in> dirs w, emit (ExistsSync p) w)"

definition readFile :: "string \<Rightarrow> world \<Rightarrow> (error + string) \<times> world" where
  "readFile p w =
     (case files w p of
        None \<Rightarrow> (Inl (FsError ''ENOENT'' p), emit (ReadFile p) w)
      | Some content \<Rightarrow> (Inr content, emit (ReadFile p) w))"

definition writeFile :: "env \<Rightarrow> string \<Rightarrow> string \<Rightarrow> world \<Rightarrow> (error + unit) \<times> world" where
  "writeFile E p content w =
     (if writable E p
      then (Inr (), (emit (WriteFile p content) w)\<lparr>files := (files w)(p \<mapsto> content)\<rparr>)
      else (Inl (FsError ''EACCES'' p), emit (WriteFile p content) w))"

definition mkdir :: "env \<Rightarrow> string \<Rightarrow> world \<Rightarrow> (error + unit) \<times> world" where
  "mkdir E p w =
     (if mkdir_ok E p
      then (Inr (), (emit (Mkdir p) w)\<lparr>dirs := insert p (dirs w)\<rparr>)
      else (Inl (FsError ''EACCES'' p), emit (Mkdir p) w))"

definition spawn :: "env \<Rightarrow> string \<Rightarrow> string list \<Rightarrow> world \<Rightarrow> proc_outcome \<times> world" where
  "spawn E cmd args w = (run_process E (events w) cmd args, emit (Spawn cmd args) w)"

section \<open>The CUE parsing adapter\<close>

text \<open>
  \<open>CueTrack\<close> as \<open>parseCueFile\<close> builds it (the interface also declares \<open>artist\<close>, which
  the object literal never sets and nothing reads).
\<close>

record CueTrack =
  trackNumber :: int
  title :: string
  trackName :: string
  performer :: string
  startTimeSeconds :: rat

record ParsedCueFile =
  title :: "string option"
  performer :: "string option"
  audioFileName :: string
  tracks :: "CueTrack list"

definition APOS :: char where
  "APOS = CHR 0x27"

text \<open>\<open>cueParser.parse(path)\<close>: the library reads the file itself and throws on a failure.\<close>

definition cueParserParse :: "env \<Rightarrow> string \<Rightarrow> world \<Rightarrow> (string + CueSheet) \<times> world" where
  "cueParserParse E p w =
     (case files w p of
        None \<Rightarrow> (Inl (''EISDIR: '' @ p), emit (CueParserParse p) w)
      | Some content \<Rightarrow> (cue_grammar E content, emit (CueParserParse p) w))"

text \<open>The callback of \<open>.map\<close>: \<open>None\<close> is the \<open>null\<close> of a track without \<open>INDEX 01\<close>.\<close>

definition convertTrack :: "SheetTrack \<Rightarrow> CueTrack option" where
  "convertTrack track =
     (case find (\<lambda>idx. idx_number idx = 1) (trk_indexes track) of
        None \<Rightarrow> None
      | Some index01 \<Rightarrow>
          Some \<lparr> trackNumber = trk_number track,
                 CueTrack.title = trk_title track,
                 trackName = trk_title track,
                 CueTrack.performer =
                   (case trk_performer track of
                      None \<Rightarrow> ''Unknown Artist''
                    | Some p \<Rightarrow> if p = [] then ''Unknown Artist'' else p),
                 startTimeSeconds = cueTimeToSeconds (idx_time index01) \<rparr>)"

definition warnMissing :: "SheetTrack list \<Rightarrow> world \<Rightarrow> world" where
  "warnMissing ts w =
     foldl (\<lambda>w track. if convertTrack track = None then emit (ConsoleWarn MissingIndex01) w else w) w ts"

text \<open>
  \<open>tracks.sort((a, b) => a.startTimeSeconds - b.startTimeSeconds)\<close>: \<open>Array.prototype.sort\<close>
  is stable, so it is the stable sort by the key \<open>startTimeSeconds\<close>.
\<close>

definition parseCueFile :: "env \<Rightarrow> string \<Rightarrow> world \<Rightarrow> (error + ParsedCueFile) \<times> world" where
  "parseCueFile E cueFilePath w =
     (let (ex, w1) = existsSync cueFilePath w
      in if \<not> ex then (Inl (Error (''CUE file not found: '' @ cueFilePath)), w1)
         else case cueParserParse E cueFilePath w1 of
           (Inl m, w2) \<Rightarrow> (Inl (Error (''Error parsing CUE file with cue-parser: '' @ m)), w2)
         | (Inr parsedCueSheet, w2) \<Rightarrow>
             if sheet_files parsedCueSheet = []
             then (Inl (Error (''No file entries found in CUE sheet: '' @ cueFilePath)), w2)
             else
               let audioFileEntry = hd (sheet_files parsedCueSheet);
                   audioFileName = file_name audioFileEntry
               in if file_tracks audioFileEntry = []
                  then (Inl (Error (''No tracks found for audio file '' @ [APOS] @ audioFileName @
                                    [APOS] @ '' in CUE sheet: '' @ cueFilePath)), w2)
                  else
                    let tracks = List.map_filter convertTrack (file_tracks audioFileEntry);
                        w3 = warnMissing (file_tracks audioFileEntry) w2;
                        tracks = sort_key startTimeSeconds tracks
                    in (Inr \<lparr> ParsedCueFile.title = sheet_title parsedCueSheet,
                               ParsedCueFile.performer = sheet_performer parsedCueSheet,
                               audioFileName = audioFileName,
                               tracks = tracks \<rparr>, w3))"

section \<open>The duration probe\<close>

definition ffprobeArgs :: "string \<Rightarrow> string list" where
  "ffprobeArgs filePath =
     [''-v'', ''error'', ''-show_entries'', ''format=duration'', ''-of'',
      ''default=noprint_wrappers=1:nokey=1'', filePath]"

definition getMp3Duration :: "env \<Rightarrow> string \<Rightarrow> world \<Rightarrow> (error + rat) \<times> world" where
  "getMp3Duration E filePath w =
     (let (outcome, w1) = spawn E ''ffprobe'' (ffprobeArgs filePath) w
      in case outcome of
           Closed code durationOutput errorOutput \<Rightarrow>
             if code = 0 then
               (case parseFloat E (trim durationOutput) of
                  Some duration \<Rightarrow> (Inr duration, w1)
                | None \<Rightarrow> (Inl (Error (''Could not parse duration from ffprobe output: '' @
                                       durationOutput @ ''. Error: '' @ errorOutput)), w1))
             else (Inl (Error (''ffprobe exited with code '' @ String_of_int code @ '': '' @ errorOutput)), w1)
         | SpawnError m \<Rightarrow>
             (Inl (Error (''Failed to start ffprobe process. Is '' @ [APOS] @ ''ffprobe'' @ [APOS] @
                          '' installed and in your system'' @ [APOS] @ ''s PATH? Error: '' @ m)), w1))"

section \<open>The segment planner and extraction driver\<close>

text \<open>A template literal prints a missing optional string as \<open>undefined\<close>.\<close>

definition String_of_optional :: "string option \<Rightarrow> string" where
  "String_of_optional x = (case x of None \<Rightarrow> ''undefined'' | Some s \<Rightarrow> s)"

definition ffmpegArgs ::
  "string \<Rightarrow> ParsedCueFile \<Rightarrow> CueTrack \<Rightarrow> rat \<Rightarrow> rat \<Rightarrow> string \<Rightarrow> string list" where
  "ffmpegArgs inputFilePath cueMetadata currentTrack startTime duration outputFilePath =
     [''-i'', inputFilePath,
      ''-ss'', formatTime startTime,
      ''-t'', formatTime duration,
      ''-y'',
      ''-c'', ''copy'',
      ''-metadata'', ''track='' @ String_of_int (trackNumber currentTrack),
      ''-metadata'', ''title='' @ trackName currentTrack,
      ''-metadata'', ''artist='' @ CueTrack.performer currentTrack,
      ''-metadata'', ''album='' @ String_of_optional (ParsedCueFile.title cueMetadata),
      ''-metadata'', ''album_artist='' @ String_of_optional (ParsedCueFile.performer cueMetadata),
      outputFilePath]"

definition outputFileName :: "string \<Rightarrow> CueTrack \<Rightarrow> string" where
  "outputFileName fileExtension currentTrack =
     sanitize (CueTrack.performer currentTrack) @ '' - '' @ sanitize (CueTrack.title currentTrack) @
     fileExtension"

text \<open>
  The loop over \<open>tracks\<close>, from the current track on: \<open>tracks[i + 1]\<close> is the head of the
  rest, and is \<open>undefined\<close> after the last track. A failing extraction rejects and ends
  the loop.
\<close>

fun splitLoop ::
  "env \<Rightarrow> string \<Rightarrow> ParsedCueFile \<Rightarrow> string \<Rightarrow> string \<Rightarrow> rat \<Rightarrow> CueTrack list \<Rightarrow>
   string list \<Rightarrow> world \<Rightarrow> (error + string list) \<times> world" where
  "splitLoop E inputFilePath cueMetadata outputDirectory fileExtension totalDuration []
     outputFilePaths w = (Inr outputFilePaths, w)"
| "splitLoop E inputFilePath cueMetadata outputDirectory fileExtension totalDuration
     (currentTrack # rest) outputFilePaths w =
     (let startTime = startTimeSeconds currentTrack;
          endTime = (case rest of [] \<Rightarrow> totalDuration | nextTrack # _ \<Rightarrow> startTimeSeconds nextTrack)
      in if startTime \<ge> endTime
         then splitLoop E inputFilePath cueMetadata outputDirectory fileExtension totalDuration rest
                outputFilePaths
                (emit (ConsoleWarn (SkippingInvalidSegment (trackNumber currentTrack) startTime endTime)) w)
         else
           let duration = endTime - startTime;
               name = outputFileName fileExtension currentTrack;
               outputFilePath = path_join E outputDirectory name;
               args = ffmpegArgs inputFilePath cueMetadata currentTrack startTime duration outputFilePath
           in case spawn E ''ffmpeg'' args w of
                (Closed code out err, w1) \<Rightarrow>
                  let w2 = (if out = [] then w1 else emit (ConsoleLog (Text (''ffmpeg stdout: '' @ out))) w1)
                  in if code = 0
                     then splitLoop E inputFilePath cueMetadata outputDirectory fileExtension
                            totalDuration rest (outputFilePaths @ [outputFilePath])
                            (emit (ConsoleLog (Text (''Successfully created: '' @ name))) w2)
                     else
                       let errorMessage = ''ffmpeg process exited with code '' @ String_of_int code @
                             '' for '' @ name @ ''. Check ffmpeg stderr for details.''
                       in (Inl (Error errorMessage), emit (ConsoleError (Text errorMessage)) w2)
              | (SpawnError m, w1) \<Rightarrow>
                  let errorMessage = ''Failed to start ffmpeg process for '' @ name @ ''. Is '' @ [APOS] @
                        ''ffmpeg'' @ [APOS] @ '' installed and in your system'' @ [APOS] @
                        ''s PATH? Error: '' @ m
                  in (Inl (Error errorMessage), emit (ConsoleError (Text errorMessage)) w1))"

definition splitMp3WithCue ::
  "env \<Rightarrow> string \<Rightarrow> ParsedCueFile \<Rightarrow> string \<Rightarrow> world \<Rightarrow> (error + string list) \<times> world" where
  "splitMp3WithCue E inputFilePath cueMetadata outputDirectory w =
     (let w = emit (ConsoleLog (Text ''splitMp3WithCue: ABOUT TO existsSync?'')) w;
          (ex, w) = existsSync inputFilePath w
      in if \<not> ex then (Inl (Error (''Input audio file not found: '' @ inputFilePath)), w)
         else if tracks cueMetadata = [] then (Inl (Error ''No tracks provided for splitting.''), w)
         else
           let w = emit (ConsoleLog (Text (''Starting to split: '' @ inputFilePath))) w;
               w = emit (ConsoleLog (Text (''Number of tracks to split: '' @
                         String_of_int (int (length (tracks cueMetadata)))))) w;
               w = emit (ConsoleLog (Text (''Output directory: '' @ outputDirectory))) w;
               (exd, w) = existsSync outputDirectory w;
               (made, w) = (if \<not> exd then mkdir E outputDirectory w else (Inr (), w))
           in case made of
                Inl e \<Rightarrow> (Inl e, w)
              | Inr _ \<Rightarrow>
                  let w = emit (ConsoleLog (Text (''Ensured output directory exists: '' @ outputDirectory))) w
                  in (case getMp3Duration E inputFilePath w of
                        (Inl e, w) \<Rightarrow> (Inl e, w)
                      | (Inr totalDuration, w) \<Rightarrow>
                          let w = emit (ConsoleLog (TotalDuration totalDuration)) w
                          in (case splitLoop E inputFilePath cueMetadata outputDirectory
                                     (path_extname E inputFilePath) totalDuration (tracks cueMetadata) [] w of
                                (Inl e, w) \<Rightarrow> (Inl e, w)
                              | (Inr outputFilePaths, w) \<Rightarrow>
                                  (Inr outputFilePaths,
                                   emit (ConsoleLog (Text ''MP3 splitting complete!'')) w))))"

section \<open>Tracklist to CUE\<close>

text \<open>
  The whole body is inside \<open>try\<close>; the \<open>catch\<close> prints the error and returns, so the
  promise never rejects.
\<close>

definition convertTracklistToCue ::
  "env \<Rightarrow> string \<Rightarrow> string \<Rightarrow> string \<Rightarrow> string \<Rightarrow> world \<Rightarrow> (error + unit) \<times> world" where
  "convertTracklistToCue E inputFilePath outputFilePath albumTitle audioFilename w =
     (case readFile inputFilePath w of
        (Inl e, w) \<Rightarrow> (Inr (), emit (ConsoleError (ErrorProcessingFiles e)) w)
      | (Inr tracklistContent, w) \<Rightarrow>
          let tracks = parseTracklist tracklistContent;
              cueFileContent = generateCueFileContent tracks albumTitle audioFilename
          in (case writeFile E outputFilePath cueFileContent w of
                (Inl e, w) \<Rightarrow> (Inr (), emit (ConsoleError (ErrorProcessingFiles e)) w)
              | (Inr _, w) \<Rightarrow>
                  (Inr (), emit (ConsoleLog (Text (''Successfully created CUE file at: '' @ outputFilePath))) w)))"

section \<open>The command-line entry points\<close>

text \<open>
  \<open>process.argv\<close> is the list \<open>argv\<close> (the interpreter and the script first); an index
  beyond its end reads \<open>undefined\<close>. \<open>!x\<close> holds of \<open>undefined\<close> and of the empty
  string.
\<close>

definition argv_at :: "string list \<Rightarrow> nat \<Rightarrow> string option" where
  "argv_at argv k = (if k < length argv then Some (argv ! k) else None)"

definition falsy :: "string option \<Rightarrow> bool" where
  "falsy x = (x = None \<or> x = Some [])"

datatype completion = ProcessExit int | Returned

definition usage_tracklist2cue :: string where
  "usage_tracklist2cue = ''Usage: pnpm tracklist2cue <path/to/your/tracklist.txt> <path/to/your/audio.mp3> <path/to/output/cue_file.cue> '' @ [QUOTE] @ ''album title'' @ [QUOTE]"

definition usage_tracklist2mp3 :: string where
  "usage_tracklist2mp3 = ''Usage: pnpm tracklist2mp3 <path/to/your/tracklist.txt> <path/to/your/audio.mp3> '' @ [QUOTE] @ ''album title'' @ [QUOTE] @ '' <path/to/your/output_folder>''"

definition usage_cue2mp3 :: string where
  "usage_cue2mp3 = ''Usage: pnpm cue2mp3 <path/to/your/cue_file.cue> <path/to/your/output_folder>''"

definition hint :: string where
  "hint = ''Please ensure you have '' @ [QUOTE] @ ''ffmpeg'' @ [QUOTE] @ '' and '' @ [QUOTE] @ ''ffprobe'' @ [QUOTE] @ '' installed and available in your system'' @ [APOS] @ ''s PATH, and that the CUE file and its referenced MP3 file exist.''"

text \<open>
  The \<open>try\<close> block that \<open>cue2mp3\<close> and \<open>tracklist2mp3\<close> both end with: parse the CUE
  file, split, print the generated files; the \<open>catch\<close> prints the error and the hint.
\<close>

definition splitFromCue :: "env \<Rightarrow> string \<Rightarrow> string \<Rightarrow> world \<Rightarrow> world" where
  "splitFromCue E cueFile outputFolder w =
     (let failed = (\<lambda>e w. emit (ConsoleError (Text hint))
                           (emit (ConsoleError (Text ([LF] @ ''An error occurred: '' @ error_message e))) w));
          w = emit (ConsoleLog (Text (''Parsing CUE file: '' @ cueFile))) w
      in case parseCueFile E cueFile w of
           (Inl e, w) \<Rightarrow> failed e w
         | (Inr parsedCue, w) \<Rightarrow>
             let cueDir = path_dirname E (path_resolve E cueFile);
                 inputMp3Path = path_join E cueDir (audioFileName parsedCue);
                 w = emit (ConsoleLog (Text (''Input MP3 file from CUE: '' @ inputMp3Path))) w;
                 w = emit (ConsoleLog (Text (''Found '' @ String_of_int (int (length (tracks parsedCue))) @
                           '' tracks.''))) w
             in (case splitMp3WithCue E inputMp3Path parsedCue outputFolder w of
                   (Inl e, w) \<Rightarrow> failed e w
                 | (Inr generatedFiles, w) \<Rightarrow>
                     foldl (\<lambda>w file. emit (ConsoleLog (Text file)) w)
                       (emit (ConsoleLog (Text ([LF] @ ''Generated MP3 files:''))) w) generatedFiles))"

text \<open>
  \<open>main\<close> of \<open>tracklist2cue\<close>. The guard does not test \<open>outputCueFile\<close>; it is
  \<open>undefined\<close> only when \<open>albumTitle\<close>, which comes after it, is too.
\<close>

definition main_tracklist2cue :: "env \<Rightarrow> string list \<Rightarrow> world \<Rightarrow> completion \<times> world" where
  "main_tracklist2cue E argv w =
     (let tracklistFile = argv_at argv 2;
          audioFile = argv_at argv 3;
          outputCueFile = argv_at argv 4;
          albumTitle = argv_at argv 5
      in if falsy tracklistFile \<or> falsy audioFile \<or> falsy albumTitle
         then (ProcessExit 1, emit (ConsoleError (Text usage_tracklist2cue)) w)
         else case (tracklistFile, audioFile, outputCueFile, albumTitle) of
                (Some t, Some a, Some out, Some album) \<Rightarrow>
                  (Returned, snd (convertTracklistToCue E t out album a w))
              | _ \<Rightarrow> (Returned, w))"

definition main_cue2mp3 :: "env \<Rightarrow> string list \<Rightarrow> world \<Rightarrow> completion \<times> world" where
  "main_cue2mp3 E argv w =
     (let cueFile = argv_at argv 2;
          outputFolder = argv_at argv 3
      in if falsy cueFile \<or> falsy outputFolder
         then (ProcessExit 1, emit (ConsoleError (Text usage_cue2mp3)) w)
         else case (cueFile, outputFolder) of
                (Some cue, Some out) \<Rightarrow> (Returned, splitFromCue E cue out w)
              | _ \<Rightarrow> (Returned, w))"

definition main_tracklist2mp3 :: "env \<Rightarrow> string list \<Rightarrow> world \<Rightarrow> completion \<times> world" where
  "main_tracklist2mp3 E argv w =
     (let tracklistFile = argv_at argv 2;
          audioFile = argv_at argv 3;
          albumTitle = argv_at argv 4;
          outputFolder = argv_at argv 5
      in if falsy tracklistFile \<or> falsy audioFile \<or> falsy albumTitle \<or> falsy outputFolder
         then (ProcessExit 1, emit (ConsoleError (Text usage_tracklist2mp3)) w)
         else case (tracklistFile, audioFile, albumTitle, outputFolder) of
                (Some t, Some a, Some album, Some out) \<Rightarrow>
                  let outputCueFile = path_join E out (hd (split t ''.'') @ ''.cue'');
                      w = snd (convertTracklistToCue E t outputCueFile album a w)
                  in (Returned, splitFromCue E outputCueFile out w)
              | _ \<Rightarrow> (Returned, w))"

section \<open>A reference environment\<close>

text \<open>
  Modelled from the spec: the CUE grammar collaborator (the package \<open>cue-parser\<close>, which is
  not part of the sources), for the sheets of section 4.3. One command per line, indentation
  ignored: \<open>TITLE "t"\<close> and \<open>PERFORMER "p"\<close> belong to the sheet before the first \<open>TRACK\<close>
  and to the last track after it, \<open>FILE "name" TYPE\<close> opens a file entry, \<open>TRACK nn TYPE\<close>
  opens a track in the last file, \<open>INDEX nn MM:SS:FF\<close> adds an index to the last track.
  Anything else is rejected.
\<close>

definition is_digit :: "char \<Rightarrow> bool" where
  "is_digit c = (let n = (of_char c :: nat) in 48 \<le> n \<and> n \<le> 57)"

definition nat_of_digits :: "string \<Rightarrow> nat option" where
  "nat_of_digits s =
     (if s \<noteq> [] \<and> list_all is_digit s
      then Some (foldl (\<lambda>n c. 10 * n + (of_char c - 48)) 0 s)
      else None)"

datatype cue_command =
    CmdTitle string
  | CmdPerformer string
  | CmdFile string
  | CmdTrack int
  | CmdIndex int CueTime
  | CmdRejected

definition unquote :: "string \<Rightarrow> string" where
  "unquote s =
     (case s of
        [] \<Rightarrow> []
      | c # cs \<Rightarrow> if c = QUOTE then takeWhile (\<lambda>d. d \<noteq> QUOTE) cs
                  else takeWhile (\<lambda>d. \<not> js_space d) s)"

definition cue_time_of :: "string \<Rightarrow> CueTime option" where
  "cue_time_of s =
     (case map nat_of_digits (split s '':'') of
        [Some m, Some sc, Some f] \<Rightarrow> Some \<lparr> min_t = int m, sec_t = int sc, frame_t = int f \<rparr>
      | _ \<Rightarrow> None)"

definition cue_command_of :: "string \<Rightarrow> cue_command" where
  "cue_command_of line =
     (let name = takeWhile (\<lambda>c. \<not> js_space c) line;
          rest = trim (dropWhile (\<lambda>c. \<not> js_space c) line);
          words = filter (\<lambda>x. x \<noteq> []) (split rest '' '')
      in if name = ''TITLE'' then CmdTitle (unquote rest)
         else if name = ''PERFORMER'' then CmdPerformer (unquote rest)
         else if name = ''FILE'' then CmdFile (unquote rest)
         else if name = ''TRACK'' then
           (case words of
              [n, kind] \<Rightarrow> (case nat_of_digits n of Some k \<Rightarrow> CmdTrack (int k) | None \<Rightarrow> CmdRejected)
            | _ \<Rightarrow> CmdRejected)
         else if name = ''INDEX'' then
           (case words of
              [n, t] \<Rightarrow>
                (case (nat_of_digits n, cue_time_of t) of
                   (Some k, Some tm) \<Rightarrow> CmdIndex (int k) tm
                 | _ \<Rightarrow> CmdRejected)
            | _ \<Rightarrow> CmdRejected)
         else CmdRejected)"

definition map_last :: "('a \<Rightarrow> 'a) \<Rightarrow> 'a list \<Rightarrow> 'a list" where
  "map_last f xs = (case rev xs of [] \<Rightarrow> [] | x # ys \<Rightarrow> rev (f x # ys))"

definition in_track :: "CueSheet \<Rightarrow> bool" where
  "in_track sheet =
     (case rev (sheet_files sheet) of [] \<Rightarrow> False | f # _ \<Rightarrow> file_tracks f \<noteq> [])"

definition on_last_track :: "(SheetTrack \<Rightarrow> SheetTrack) \<Rightarrow> CueSheet \<Rightarrow> CueSheet" where
  "on_last_track g sheet =
     sheet\<lparr>sheet_files := map_last (\<lambda>f. f\<lparr>file_tracks := map_last g (file_tracks f)\<rparr>) (sheet_files sheet)\<rparr>"

fun cue_apply :: "cue_command \<Rightarrow> CueSheet \<Rightarrow> string + CueSheet" where
  "cue_apply (CmdTitle t) sheet =
     (if in_track sheet then Inr (on_last_track (\<lambda>tr. tr\<lparr>trk_title := t\<rparr>) sheet)
      else Inr (sheet\<lparr>sheet_title := Some t\<rparr>))"
| "cue_apply (CmdPerformer p) sheet =
     (if in_track sheet then Inr (on_last_track (\<lambda>tr. tr\<lparr>trk_performer := Some p\<rparr>) sheet)
      else Inr (sheet\<lparr>sheet_performer := Some p\<rparr>))"
| "cue_apply (CmdFile n) sheet =
     Inr (sheet\<lparr>sheet_files := sheet_files sheet @ [\<lparr>file_name = n, file_tracks = []\<rparr>]\<rparr>)"
| "cue_apply (CmdTrack k) sheet =
     (if sheet_files sheet = [] then Inl ''TRACK before FILE''
      else Inr (sheet\<lparr>sheet_files :=
             map_last (\<lambda>f. f\<lparr>file_tracks := file_tracks f @
                 [\<lparr>trk_number = k, trk_title = [], trk_performer = None, trk_indexes = []\<rparr>]\<rparr>)
               (sheet_files sheet)\<rparr>))"
| "cue_apply (CmdIndex k tm) sheet =
     (if in_track sheet
      then Inr (on_last_track
             (\<lambda>tr. tr\<lparr>trk_indexes := trk_indexes tr @ [\<lparr>idx_number = k, idx_time = tm\<rparr>]\<rparr>) sheet)
      else Inl ''INDEX before TRACK'')"
| "cue_apply CmdRejected sheet = Inl ''Invalid command''"

fun cue_read :: "string list \<Rightarrow> CueSheet \<Rightarrow> string + CueSheet" where
  "cue_read [] sheet = Inr sheet"
| "cue_read (line # lines) sheet =
     (case cue_apply (cue_command_of line) sheet of
        Inl m \<Rightarrow> Inl m
      | Inr sheet' \<Rightarrow> cue_read lines sheet')"

definition reference_grammar :: "string \<Rightarrow> string + CueSheet" where
  "reference_grammar content =
     cue_read (filter (\<lambda>l. l \<noteq> []) (map trim (split content [LF])))
       \<lparr>sheet_title = None, sheet_performer = None, sheet_files = []\<rparr>"

text \<open>
  The other collaborators, as simple as they can be: paths are joined with a slash and are
  already absolute, every process closes with exit code 0 and \<open>ffprobe\<close> prints a duration
  of 120 seconds, \<open>parseFloat\<close> reads unsigned integers, and the file system allows every
  write.
\<close>

definition reference_dirname :: "string \<Rightarrow> string" where
  "reference_dirname p = rev (tl (dropWhile (\<lambda>c. c \<noteq> CHR ''/'') (rev p)))"

definition reference_extname :: "string \<Rightarrow> string" where
  "reference_extname p =
     (if CHR ''.'' \<in> set p then CHR ''.'' # rev (takeWhile (\<lambda>c. c \<noteq> CHR ''.'') (rev p)) else [])"

definition reference_env :: env where
  "reference_env =
     \<lparr> path_join = (\<lambda>a b. a @ ''/'' @ b),
       path_dirname = reference_dirname,
       path_resolve = (\<lambda>p. p),
       path_extname = reference_extname,
       cue_grammar = reference_grammar,
       run_process = (\<lambda>history cmd args. Closed 0 (if cmd = ''ffprobe'' then ''120'' else []) []),
       parseFloat = (\<lambda>s. map_option of_nat (nat_of_digits s)),
       writable = (\<lambda>p. True),
       mkdir_ok = (\<lambda>p. True) \<rparr>"

section \<open>Notions used to state the properties\<close>

text \<open>
  The windows of the data model: window \<open>i\<close> runs from the start of track \<open>i\<close> to the start
  of track \<open>i + 1\<close>, and the last one to the total duration.
\<close>

definition trackWindows :: "CueTrack list \<Rightarrow> rat \<Rightarrow> (CueTrack \<times> rat \<times> rat) list" where
  "trackWindows ts totalDuration =
     map (\<lambda>i. (ts ! i, startTimeSeconds (ts ! i),
               if i + 1 < length ts then startTimeSeconds (ts ! (i + 1)) else totalDuration))
       [0 ..< length ts]"

definition degenerate :: "CueTrack \<times> rat \<times> rat \<Rightarrow> bool" where
  "degenerate win = (case win of (t, startSeconds, endSeconds) \<Rightarrow> startSeconds \<ge> endSeconds)"

text \<open>The extraction request and the output path that the loop derives from a window.\<close>

definition requestOf ::
  "env \<Rightarrow> string \<Rightarrow> ParsedCueFile \<Rightarrow> string \<Rightarrow> string \<Rightarrow> CueTrack \<times> rat \<times> rat \<Rightarrow> string list" where
  "requestOf E inputFilePath cueMetadata outputDirectory fileExtension win =
     (case win of (t, startSeconds, endSeconds) \<Rightarrow>
        ffmpegArgs inputFilePath cueMetadata t startSeconds (endSeconds - startSeconds)
          (path_join E outputDirectory (outputFileName fileExtension t)))"

definition pathOf :: "env \<Rightarrow> string \<Rightarrow> string \<Rightarrow> CueTrack \<times> rat \<times> rat \<Rightarrow> string" where
  "pathOf E outputDirectory fileExtension win =
     (case win of (t, startSeconds, endSeconds) \<Rightarrow>
        path_join E outputDirectory (outputFileName fileExtension t))"

text \<open>The extraction requests and the skip warnings in a trace, in order.\<close>

fun ffmpegRequests :: "event list \<Rightarrow> string list list" where
  "ffmpegRequests [] = []"
| "ffmpegRequests (Spawn cmd args # es) =
     (if cmd = ''ffmpeg'' then args # ffmpegRequests es else ffmpegRequests es)"
| "ffmpegRequests (e # es) = ffmpegRequests es"

fun skipWarnings :: "event list \<Rightarrow> (int \<times> rat \<times> rat) list" where
  "skipWarnings [] = []"
| "skipWarnings (ConsoleWarn (SkippingInvalidSegment n s e) # es) = (n, s, e) # skipWarnings es"
| "skipWarnings (e # es) = skipWarnings es"

text \<open>The words of a string: its maximal runs of characters that are not white space.\<close>

function js_words :: "string \<Rightarrow> string list" where
  "js_words s =
     (case dropWhile js_space s of
        [] \<Rightarrow> []
      | c # cs \<Rightarrow> takeWhile (\<lambda>d. \<not> js_space d) (c # cs) # js_words (dropWhile (\<lambda>d. \<not> js_space d) cs))"
  by pat_completeness auto
termination
proof (relation "measure length", goal_cases)
  case 1
  show ?case by simp
next
  case (2 s c cs)
  have "length (dropWhile (\<lambda>d. \<not> js_space d) cs) \<le> length cs"
    by (rule length_dropWhile_le)
  moreover have "length (c # cs) \<le> length s"
    using 2 length_dropWhile_le [of js_space s] by simp
  ultimately show ?case by simp
qed

declare js_words.simps [simp del]

text \<open>
  What it means for a CUE grammar to read a serialized track list back: the sheet has one
  \<open>FILE\<close> entry with as many tracks as there are entries; track \<open>i\<close> (from 0) has the
  number \<open>i + 1\<close>, the title of entry \<open>i\<close>, its artist as performer (an empty artist may
  be read as no performer) and the single index \<open>INDEX 01\<close>, at the time \<open>indexTimes ! i\<close>.
\<close>

definition sheetTrackOf :: "nat \<Rightarrow> Track \<Rightarrow> CueTime \<Rightarrow> SheetTrack \<Rightarrow> bool" where
  "sheetTrackOf i entry t tr =
     (trk_number tr = int i + 1 \<and> trk_title tr = Track.title entry \<and>
      (trk_performer tr = Some (artist entry) \<or> (artist entry = [] \<and> trk_performer tr = None)) \<and>
      trk_indexes tr = [\<lparr>idx_number = 1, idx_time = t\<rparr>])"

definition readsBack ::
  "(string \<Rightarrow> string + CueSheet) \<Rightarrow> Track list \<Rightarrow> string \<Rightarrow> string \<Rightarrow> CueTime list \<Rightarrow> bool" where
  "readsBack grammar entries albumTitle filename indexTimes =
     (length indexTimes = length entries \<and>
      (case grammar (generateCueFileContent entries albumTitle filename) of
         Inl m \<Rightarrow> False
       | Inr sheet \<Rightarrow>
           (case sheet_files sheet of
              [f] \<Rightarrow> length (file_tracks f) = length entries \<and>
                     list_all (\<lambda>i. sheetTrackOf i (entries ! i) (indexTimes ! i) (file_tracks f ! i))
                       [0 ..< length entries]
            | _ \<Rightarrow> False)))"

text \<open>The track that \<open>parseCueFile\<close> makes of entry \<open>i\<close> read back at the index time \<open>t\<close>.\<close>

definition cueTrackOf :: "nat \<Rightarrow> Track \<Rightarrow> CueTime \<Rightarrow> CueTrack" where
  "cueTrackOf i entry t =
     \<lparr> trackNumber = int i + 1, CueTrack.title = Track.title entry, trackName = Track.title entry,
       CueTrack.performer = (if artist entry = [] then ''Unknown Artist'' else artist entry),
       startTimeSeconds = cueTimeToSeconds t \<rparr>"

section \<open>Example inputs\<close>

text \<open>Three entries whose timestamps are not in ascending order; the second has no artist.\<close>

definition example_entries :: "Track list" where
  "example_entries =
     [\<lparr>timestamp = ''00:00'', artist = ''A'', Track.title = ''One''\<rparr>,
      \<lparr>timestamp = ''05:00'', artist = [], Track.title = ''Two''\<rparr>,
      \<lparr>timestamp = ''03:00'', artist = ''C'', Track.title = ''Three''\<rparr>]"

definition example_world :: world where
  "example_world =
     \<lparr> files = [''/m/mix.cue'' \<mapsto> generateCueFileContent example_entries ''Album'' ''mix.mp3''],
       dirs = {}, events = [] \<rparr>"

text \<open>A sheet with two \<open>FILE\<close> entries; the second track of the first has no \<open>INDEX 01\<close>.\<close>

definition two_file_sheet :: string where
  "two_file_sheet =
     ''FILE '' @ [QUOTE] @ ''a.mp3'' @ [QUOTE] @ '' MP3'' @ [LF] @
     ''TRACK 01 AUDIO'' @ [LF] @ ''TITLE '' @ [QUOTE] @ ''One'' @ [QUOTE] @ [LF] @
     ''INDEX 01 00:10:00'' @ [LF] @
     ''TRACK 02 AUDIO'' @ [LF] @ ''TITLE '' @ [QUOTE] @ ''Two'' @ [QUOTE] @ [LF] @
     ''INDEX 00 00:01:00'' @ [LF] @
     ''FILE '' @ [QUOTE] @ ''b.mp3'' @ [QUOTE] @ '' MP3'' @ [LF] @
     ''TRACK 03 AUDIO'' @ [LF] @ ''TITLE '' @ [QUOTE] @ ''Three'' @ [QUOTE] @ [LF] @
     ''INDEX 01 00:05:00'' @ [LF]"

definition two_file_world :: world where
  "two_file_world = \<lparr> files = [''/m/two.cue'' \<mapsto> two_file_sheet], dirs = {}, events = [] \<rparr>"

definition empty_world :: world where
  "empty_world = \<lparr> files = Map.empty, dirs = {}, events = [] \<rparr>"

text \<open>What \<open>parseCueFile\<close> returns for the sheet written from \<open>example_entries\<close>.\<close>

definition example_parsed :: ParsedCueFile where
  "example_parsed =
     \<lparr> ParsedCueFile.title = Some ''Album'', ParsedCueFile.performer = None,
       audioFileName = ''mix.mp3'',
       tracks =
         [\<lparr>trackNumber = 1, CueTrack.title = ''One'', trackName = ''One'',
            CueTrack.performer = ''A'', startTimeSeconds = 0\<rparr>,
          \<lparr>trackNumber = 3, CueTrack.title = ''Three'', trackName = ''Three'',
            CueTrack.performer = ''C'', startTimeSeconds = 180\<rparr>,
          \<lparr>trackNumber = 2, CueTrack.title = ''Two'', trackName = ''Two'',
            CueTrack.performer = ''Unknown Artist'', startTimeSeconds = 300\<rparr>] \<rparr>"

text \<open>What the reference grammar reads from \<open>two_file_sheet\<close>.\<close>

definition two_file_parsed :: CueSheet where
  "two_file_parsed =
     \<lparr>sheet_title = None, sheet_performer = None,
      sheet_files =
        [\<lparr>file_name = ''a.mp3'',
           file_tracks =
             [\<lparr>trk_number = 1, trk_title = ''One'', trk_performer = None,
                trk_indexes = [\<lparr>idx_number = 1, idx_time = \<lparr>min_t = 0, sec_t = 10, frame_t = 0\<rparr>\<rparr>]\<rparr>,
              \<lparr>trk_number = 2, trk_title = ''Two'', trk_performer = None,
                trk_indexes = [\<lparr>idx_number = 0, idx_time = \<lparr>min_t = 0, sec_t = 1, frame_t = 0\<rparr>\<rparr>]\<rparr>]\<rparr>,
         \<lparr>file_name = ''b.mp3'',
           file_tracks =
             [\<lparr>trk_number = 3, trk_title = ''Three'', trk_performer = None,
                trk_indexes = [\<lparr>idx_number = 1, idx_time = \<lparr>min_t = 0, sec_t = 5, frame_t = 0\<rparr>\<rparr>]\<rparr>]\<rparr>]\<rparr>"

text \<open>
  A world without the tracklist \<open>list.txt\<close>, where a CUE file of an earlier run and the
  recording are present.
\<close>

definition stale_world :: world where
  "stale_world =
     \<lparr> files = [''/m/list.cue'' \<mapsto> generateCueFileContent example_entries ''Album'' ''mix.mp3'',
                ''/m/mix.mp3'' \<mapsto> []],
       dirs = {''/m''}, events = [] \<rparr>"

text \<open>Three tracks starting at 0, 30 and 90 seconds, and a world that holds the recording.\<close>

definition example_plan :: ParsedCueFile where
  "example_plan =
     \<lparr> ParsedCueFile.title = Some ''Album'', ParsedCueFile.performer = None,
       audioFileName = ''mix.mp3'',
       tracks =
         [\<lparr>trackNumber = 1, CueTrack.title = ''One'', trackName = ''One'',
            CueTrack.performer = ''A'', startTimeSeconds = 0\<rparr>,
          \<lparr>trackNumber = 2, CueTrack.title = ''Two'', trackName = ''Two'',
            CueTrack.performer = ''B'', startTimeSeconds = 30\<rparr>,
          \<lparr>trackNumber = 3, CueTrack.title = ''Three'', trackName = ''Three'',
            CueTrack.performer = ''C'', startTimeSeconds = 90\<rparr>] \<rparr>"

definition audio_world :: world where
  "audio_world = \<lparr> files = [''/m/mix.mp3'' \<mapsto> []], dirs = {}, events = [] \<rparr>"

text \<open>Three entries in ascending order, the sheet written from them, and the index times.\<close>

definition ascending_entries :: "Track list" where
  "ascending_entries =
     [\<lparr>timestamp = ''00:00'', artist = ''A'', Track.title = ''One''\<rparr>,
      \<lparr>timestamp = ''03:00'', artist = [], Track.title = ''Two''\<rparr>,
      \<lparr>timestamp = ''05:00'', artist = ''C'', Track.title = ''Three''\<rparr>]"

definition ascending_times :: "CueTime list" where
  "ascending_times =
     [\<lparr>min_t = 0, sec_t = 0, frame_t = 0\<rparr>, \<lparr>min_t = 3, sec_t = 0, frame_t = 0\<rparr>,
      \<lparr>min_t = 5, sec_t = 0, frame_t = 0\<rparr>]"

definition ascending_world :: world where
  "ascending_world =
     \<lparr> files = [''/m/asc.cue'' \<mapsto> generateCueFileContent ascending_entries ''Album'' ''mix.mp3''],
       dirs = {}, events = [] \<rparr>"

text \<open>The index times of \<open>example_entries\<close>.\<close>

definition example_times :: "CueTime list" where
  "example_times =
     [\<lparr>min_t = 0, sec_t = 0, frame_t = 0\<rparr>, \<lparr>min_t = 5, sec_t = 0, frame_t = 0\<rparr>,
      \<lparr>min_t = 3, sec_t = 0, frame_t = 0\<rparr>]"

section \<open>Properties of the string functions\<close>

lemma js_includes_sublist: "js_includes s pat = sublist pat s"
  by (induction s) (auto simp: sublist_Cons_right)

lemma includes_Nil [simp]: "js_includes s []"
  by (cases s) auto

lemma includes_append: "js_includes s (p @ q) \<Longrightarrow> js_includes s p"
  by (induction s) (auto simp: prefix_def)

lemma split_from_absent: "\<not> js_includes s pat \<Longrightarrow> split_from pat cur s = [rev cur @ s]"
  by (induction s arbitrary: cur) auto

lemma split_from_nonempty: "split_from sep cur s \<noteq> []"
  by (induction sep cur s rule: split_from.induct) auto

lemma replace_absent: "\<not> js_includes s pat \<Longrightarrow> replace s pat rep = s"
  by (induction s) auto

lemma after_absent: "\<not> js_includes s pat \<Longrightarrow> after s pat = s"
  by (auto simp: after_def split_def split_from_absent Let_def)

lemma js_space_space: "js_space (CHR '' '')"
  by (simp add: js_space_def)

lemma sublist_trimStart: "sublist (trimStart s) s"
  unfolding trimStart_def by (simp add: suffix_dropWhile)

lemma sublist_trimEnd: "sublist (trimEnd s) s"
proof -
  have "suffix (dropWhile js_space (rev s)) (rev s)" by (rule suffix_dropWhile)
  then have "prefix (rev (dropWhile js_space (rev s))) s"
    by (metis rev_rev_ident suffix_to_prefix)
  then show ?thesis by (simp add: trimEnd_def)
qed

lemma sublist_trim: "sublist (trim s) s"
  unfolding trim_def using sublist_trimEnd sublist_trimStart sublist_order.order_trans by blast

lemma filter_dropWhile_same: "filter (\<lambda>c. \<not> P c) (dropWhile P s) = filter (\<lambda>c. \<not> P c) s"
  by (induction s) auto

lemma filter_trim: "filter (\<lambda>c. \<not> js_space c) (trim s) = filter (\<lambda>c. \<not> js_space c) s"
proof -
  have "filter (\<lambda>c. \<not> js_space c) (trimEnd t) = filter (\<lambda>c. \<not> js_space c) t" for t
    unfolding trimEnd_def
    by (metis filter_dropWhile_same rev_filter rev_rev_ident)
  then show ?thesis by (simp add: trim_def trimStart_def filter_dropWhile_same)
qed

lemma trimStart_trim: "trimStart (trim s) = trim s"
proof (cases "trimStart s")
  case Nil
  then show ?thesis by (simp add: trim_def trimEnd_def) (simp add: trimStart_def)
next
  case (Cons a as)
  then have a: "\<not> js_space a"
    unfolding trimStart_def using hd_dropWhile[of js_space s] by (metis list.sel(1) list.simps(3))
  have "dropWhile js_space (rev (a # as)) = dropWhile js_space (rev as) @ [a]"
    using a by (simp add: dropWhile_append)
  then have "trimEnd (a # as) = a # rev (dropWhile js_space (rev as))"
    by (simp add: trimEnd_def)
  then show ?thesis using a Cons by (simp add: trim_def trimStart_def)
qed

lemma trimEnd_trim: "trimEnd (trim s) = trim s"
  by (simp add: trim_def trimEnd_def)

section \<open>Properties of the tracklist parser\<close>

lemma length_parseTracklist: "length (parseTracklist t) = length (tracklistLines t)"
  by (simp add: parseTracklist_def Let_def)

lemma nth_parseTracklist:
  "i < length (tracklistLines t) \<Longrightarrow> parseTracklist t ! i = parseLine (tracklistLines t ! i) i"
  by (simp add: parseTracklist_def Let_def)

lemma tracklistLines_nonempty: "tracklistLines t \<noteq> []"
  by (simp add: tracklistLines_def split_def split_from_nonempty)

lemma parseLine_no_delimiter:
  assumes "\<not> js_includes (withoutTimestamp line) '' - ''"
  shows "Track.title (parseLine line i) = withoutTimestamp line"
    and "artist (parseLine line i) = withoutTimestamp line"
proof -
  have t: "after (withoutTimestamp line) '' - '' = withoutTimestamp line"
    using assms by (rule after_absent)
  have "\<not> js_includes (withoutTimestamp line) ('' - '' @ withoutTimestamp line)"
    using assms includes_append by blast
  then have a: "replace (withoutTimestamp line) ('' - '' @ withoutTimestamp line) [] = withoutTimestamp line"
    by (rule replace_absent)
  show "Track.title (parseLine line i) = withoutTimestamp line"
    by (simp add: parseLine_def Let_def t)
  show "artist (parseLine line i) = withoutTimestamp line"
    unfolding parseLine_def Let_def t using a by simp
qed

text \<open>
  The remainder of a line that starts with a token and a space is the text after that space,
  with the carriage returns removed.
\<close>

lemma join_Cons: "ys \<noteq> [] \<Longrightarrow> join (x # ys) sep = x @ sep @ join ys sep"
  by (cases ys) auto

lemma join_split_from: "sep \<noteq> [] \<Longrightarrow> join (split_from sep cur s) sep = rev cur @ s"
proof (induction sep cur s rule: split_from.induct)
  case (1 sep cur)
  show ?case by simp
next
  case (2 sep cur c cs)
  show ?case
  proof (cases "prefix sep (c # cs)")
    case True
    then obtain rest where rest: "c # cs = sep @ rest" by (auto simp: prefix_def)
    then have d: "drop (length sep) (c # cs) = rest" by simp
    have "join (split_from sep cur (c # cs)) sep = rev cur @ sep @ join (split_from sep [] rest) sep"
      using True 2(3) d by (simp add: join_Cons split_from_nonempty)
    also have "\<dots> = rev cur @ c # cs"
      using 2(1) [OF _ 2(3)] True 2(3) d rest by simp
    finally show ?thesis .
  next
    case False
    then show ?thesis using 2 by simp
  qed
qed

lemma split_from_token:
  "CHR '' '' \<notin> set tok \<Longrightarrow>
   split_from '' '' cur (tok @ CHR '' '' # rest) = (rev cur @ tok) # split_from '' '' [] rest"
  by (induction tok arbitrary: cur) auto

lemma lineTimestamp_token:
  assumes "tok \<noteq> []" and "CHR '' '' \<notin> set tok"
  shows "lineTimestamp (tok @ '' '' @ rest) = tok"
  using assms by (simp add: lineTimestamp_def split_def split_from_token)

lemma withoutTimestamp_token:
  assumes "tok \<noteq> []" and "CHR '' '' \<notin> set tok"
  shows "withoutTimestamp (tok @ '' '' @ rest) = removeAll_char CR rest"
proof -
  have "split_from (tok @ '' '') [] ((tok @ '' '') @ rest) = [] # split_from (tok @ '' '') [] rest"
    using assms(1) by (cases tok) simp_all
  then have "after (tok @ '' '' @ rest) (tok @ '' '') = rest"
    using join_split_from [of "tok @ '' ''" "[]" rest]
    by (simp add: after_def split_def Let_def split_from_nonempty)
  then show ?thesis
    using lineTimestamp_token [OF assms, of rest] by (simp add: withoutTimestamp_def)
qed


lemma eval_3_45_Intro:
  "tracklistLines ''3:45 Intro'' = [''3:45 Intro'']" "withoutTimestamp ''3:45 Intro'' = ''Intro''"
  by (simp_all add: tracklistLines_def withoutTimestamp_def lineTimestamp_def split_def trim_def
      trimEnd_def trimStart_def js_space_def after_def removeAll_char_def CR_def LF_def)



text \<open>
  C3. Whatever the tracklist text is, \<open>parseTracklist\<close> returns at least one entry (the empty
  text splits into one empty line) and the first entry has the timestamp \<open>00:00\<close>.
\<close>

theorem parseTracklist_first_timestamp:
  "parseTracklist tracklist \<noteq> [] \<and> timestamp (hd (parseTracklist tracklist)) = ''00:00''"
  using tracklistLines_nonempty [of tracklist] nth_parseTracklist [of 0 tracklist]
    length_parseTracklist [of tracklist]
  by (cases "parseTracklist tracklist") (auto simp: parseLine_def Let_def hd_conv_nth)

section \<open>Properties of the time conversion\<close>

text \<open>
  C6. \<open>formatTime\<close> rounds the fraction of a second to milliseconds and does not carry: at
  \<open>2047/2048\<close> seconds (a double, and every step of the computation is exact on doubles)
  the fraction rounds to 1000 and the result is \<open>00:00:00.1000\<close>, which is not of the shape
  \<open>HH:MM:SS.mmm\<close>.
\<close>

theorem formatTime_millisecond_overflow:
  "formatTime (2047 / 2048) = ''00:00:00.1000''"
  by code_simp

text \<open>The example of the specification holds.\<close>

lemma formatTime_example: "formatTime (90 + 37 / 75) = ''00:01:30.493''"
  by code_simp

text \<open>The same happens for every time from 0.9995 seconds to just below one second.\<close>

lemma formatTime_carry_missing:
  assumes "9995 / 10000 \<le> s" and "s < 1"
  shows "formatTime s = ''00:00:00.1000''"
proof -
  have f1: "\<lfloor>s / 3600\<rfloor> = 0" using assms by (simp add: floor_eq_iff)
  have t1: "js_trunc (s / 3600) = 0" using assms f1 by (simp add: js_trunc_def)
  have r1: "js_rem s 3600 = s" by (simp add: js_rem_def t1)
  have f2: "\<lfloor>s / 60\<rfloor> = 0" using assms by (simp add: floor_eq_iff)
  have t2: "js_trunc (s / 60) = 0" using assms f2 by (simp add: js_trunc_def)
  have r2: "js_rem s 60 = s" by (simp add: js_rem_def t2)
  have f3: "\<lfloor>s\<rfloor> = 0" using assms by (simp add: floor_eq_iff)
  have m: "Math_round (s * 1000) = 1000"
    using assms by (simp add: Math_round_def floor_eq_iff)
  have d0: "padStart 2 (CHR ''0'') (String_of_int 0) = ''00''" by code_simp
  have d1: "padStart 3 (CHR ''0'') (String_of_int 1000) = ''1000''" by code_simp
  show ?thesis
    by (simp add: formatTime_def Let_def f1 r1 f2 r2 f3 m d0 d1)
qed

section \<open>Properties of the file name sanitization\<close>

lemma filter_collapse:
  "filter (\<lambda>c. \<not> js_space c) (collapse_spaces s) = filter (\<lambda>c. \<not> js_space c) s"
  by (induction s rule: collapse_spaces.induct) (auto simp: filter_dropWhile_same js_space_space)

lemma set_collapse: "set (collapse_spaces s) \<subseteq> {c \<in> set s. \<not> js_space c} \<union> {CHR '' ''}"
proof (induction s rule: collapse_spaces.induct)
  case 1
  show ?case by simp
next
  case (2 c cs)
  have "set (dropWhile js_space cs) \<subseteq> set cs" by (simp add: set_dropWhileD subsetI)
  with 2 show ?case by (auto split: if_splits)
qed

lemma collapse_no_double: "\<not> sublist ''  '' (collapse_spaces s)"
proof (induction s rule: collapse_spaces.induct)
  case 1
  show ?case by simp
next
  case (2 c cs)
  show ?case
  proof (cases "js_space c")
    case True
    define d where "d = dropWhile js_space cs"
    have ih: "\<not> sublist ''  '' (collapse_spaces d)" using 2 True by (simp add: d_def)
    have "\<not> prefix ''  '' (CHR '' '' # collapse_spaces d)"
    proof (cases d)
      case Nil
      then show ?thesis by simp
    next
      case (Cons a as)
      then have "\<not> js_space a" using hd_dropWhile[of js_space cs] by (auto simp: d_def)
      then have "a \<noteq> CHR '' ''" by (auto simp: js_space_def)
      with Cons \<open>\<not> js_space a\<close> show ?thesis by simp
    qed
    with ih True show ?thesis by (simp add: sublist_Cons_right d_def)
  next
    case False
    then have "c \<noteq> CHR '' ''" by (auto simp: js_space_def)
    with 2 False show ?thesis by (simp add: sublist_Cons_right)
  qed
qed

lemma sanitize_chars:
  "list_all (\<lambda>c. alnum c \<or> c = CHR '' '' \<or> c = CHR ''-'' \<or> c = CHR ''_'' \<or> c = CHR ''.'') (sanitize s)"
proof -
  have "set (sanitize s) \<subseteq> set (collapse_spaces (filter filename_char s))"
    unfolding sanitize_def using sublist_trim set_mono_sublist by blast
  also have "\<dots> \<subseteq> {c \<in> set (filter filename_char s). \<not> js_space c} \<union> {CHR '' ''}"
    by (rule set_collapse)
  finally have "\<And>c. c \<in> set (sanitize s) \<Longrightarrow> (filename_char c \<and> \<not> js_space c) \<or> c = CHR '' ''"
    by auto
  then show ?thesis
    unfolding list_all_iff filename_char_def by blast
qed

lemma sanitize_kept:
  "filter (\<lambda>c. \<not> js_space c) (sanitize s) = filter (\<lambda>c. filename_char c \<and> \<not> js_space c) s"
  by (simp add: sanitize_def filter_trim filter_collapse conj_commute)

lemma sanitize_no_double_space: "\<not> js_includes (sanitize s) ''  ''"
proof
  assume "js_includes (sanitize s) ''  ''"
  then have "sublist ''  '' (trim (collapse_spaces (filter filename_char s)))"
    by (simp add: js_includes_sublist sanitize_def)
  then have "sublist ''  '' (collapse_spaces (filter filename_char s))"
    using sublist_trim sublist_order.order_trans by blast
  then show False using collapse_no_double by blast
qed

lemma dropWhile_eq_Cons_head: "dropWhile P xs = c # cs \<Longrightarrow> \<not> P c"
  by (metis hd_dropWhile list.sel(1) list.simps(3))

lemma js_words_Nil: "js_words [] = []"
  by (simp add: js_words.simps)

lemma js_words_head_nonempty:
  assumes "js_words s = v # vs"
  shows "v \<noteq> []"
proof (cases "dropWhile js_space s")
  case Nil
  then show ?thesis using assms by (simp add: js_words.simps [of s] del: dropWhile_eq_Nil_conv)
next
  case (Cons a as)
  then have "\<not> js_space a" by (rule dropWhile_eq_Cons_head)
  then show ?thesis using assms Cons by (auto simp: js_words.simps [of s])
qed

lemma collapse_takeWhile:
  "collapse_spaces cs =
     takeWhile (\<lambda>d. \<not> js_space d) cs @ collapse_spaces (dropWhile (\<lambda>d. \<not> js_space d) cs)"
  by (induction cs) auto

lemma trimEnd_append_keep: "trimEnd b \<noteq> [] \<Longrightarrow> trimEnd (a @ b) = a @ trimEnd b"
  by (auto simp: trimEnd_def dropWhile_append)

lemma trimEnd_append_drop: "trimEnd b = [] \<Longrightarrow> trimEnd (a @ b) = trimEnd a"
proof -
  assume "trimEnd b = []"
  then have "\<forall>x \<in> set (rev b). js_space x" by (simp add: trimEnd_def)
  then show ?thesis by (simp add: trimEnd_def dropWhile_append)
qed

lemma trimEnd_word: "\<forall>x \<in> set u. \<not> js_space x \<Longrightarrow> trimEnd u = u"
  by (cases "rev u") (auto simp: trimEnd_def)

lemma trimEnd_collapse:
  "trimEnd (collapse_spaces (dropWhile js_space s)) = join (js_words s) '' ''"
proof (induction s rule: length_induct)
  case (1 s)
  show ?case
  proof (cases "dropWhile js_space s")
    case Nil
    then show ?thesis by (simp add: js_words.simps [of s] trimEnd_def del: dropWhile_eq_Nil_conv)
  next
    case (Cons c cs)
    then have c: "\<not> js_space c" by (rule dropWhile_eq_Cons_head)
    define u where "u = c # takeWhile (\<lambda>d. \<not> js_space d) cs"
    define rest where "rest = dropWhile (\<lambda>d. \<not> js_space d) cs"
    have u: "\<forall>x \<in> set u. \<not> js_space x" "u \<noteq> []"
      using c by (auto simp: u_def dest: set_takeWhileD)
    have w: "js_words s = u # js_words rest"
      using c by (simp add: js_words.simps [of s] Cons u_def rest_def)
    have col: "collapse_spaces (c # cs) = u @ collapse_spaces rest"
      using c collapse_takeWhile [of cs] by (simp add: u_def rest_def)
    have "length rest \<le> length cs" by (simp add: rest_def length_dropWhile_le)
    moreover have "length (c # cs) \<le> length s"
      using Cons length_dropWhile_le [of js_space s] by simp
    ultimately have "length rest < length s" by simp
    then have ih: "trimEnd (collapse_spaces (dropWhile js_space rest)) = join (js_words rest) '' ''"
      using 1 by blast
    have goal: "trimEnd (u @ collapse_spaces rest) = join (u # js_words rest) '' ''"
    proof (cases rest)
      case Nil
      then show ?thesis using u by (simp add: js_words_Nil trimEnd_word)
    next
      case (Cons d ds)
      then have d: "js_space d"
        using dropWhile_eq_Cons_head [of "\<lambda>d. \<not> js_space d" cs d ds] by (simp add: rest_def)
      have cr: "collapse_spaces rest = CHR '' '' # collapse_spaces (dropWhile js_space rest)"
        using d Cons by simp
      show ?thesis
      proof (cases "js_words rest")
        case Nil
        then have "trimEnd (collapse_spaces (dropWhile js_space rest)) = []"
          using ih by simp
        then have "trimEnd ([CHR '' ''] @ collapse_spaces (dropWhile js_space rest)) = []"
          by (simp add: trimEnd_append_drop) (simp add: trimEnd_def js_space_space)
        then have "trimEnd (u @ collapse_spaces rest) = u"
          using u by (simp add: cr trimEnd_append_drop trimEnd_word)
        then show ?thesis by (simp add: Nil)
      next
        case (Cons v vs)
        have "v \<noteq> []"
          using Cons by (rule js_words_head_nonempty)
        then have ne: "join (js_words rest) '' '' \<noteq> []"
          using Cons by (cases vs) auto
        then have "trimEnd ((u @ [CHR '' '']) @ collapse_spaces (dropWhile js_space rest))
            = (u @ [CHR '' '']) @ join (js_words rest) '' ''"
          using ih trimEnd_append_keep [of "collapse_spaces (dropWhile js_space rest)" "u @ [CHR '' '']"]
          by simp
        then show ?thesis
          by (simp add: cr Cons)
      qed
    qed
    show ?thesis
      unfolding \<open>dropWhile js_space s = c # cs\<close> col w by (rule goal)
  qed
qed

lemma trimStart_collapse: "trimStart (collapse_spaces s) = collapse_spaces (dropWhile js_space s)"
proof (cases s)
  case Nil
  then show ?thesis by (simp add: trimStart_def)
next
  case (Cons c cs)
  show ?thesis
  proof (cases "js_space c")
    case True
    have "dropWhile js_space (collapse_spaces (dropWhile js_space cs)) = collapse_spaces (dropWhile js_space cs)"
    proof (cases "dropWhile js_space cs")
      case Nil
      then show ?thesis by (simp del: dropWhile_eq_Nil_conv)
    next
      case (Cons a as)
      then have "\<not> js_space a" by (rule dropWhile_eq_Cons_head)
      then show ?thesis using Cons by simp
    qed
    then show ?thesis using True Cons by (simp add: trimStart_def js_space_space)
  next
    case False
    then show ?thesis using Cons by (simp add: trimStart_def)
  qed
qed

lemma sanitize_words: "sanitize s = join (js_words (filter filename_char s)) '' ''"
  by (simp add: sanitize_def trim_def trimStart_collapse trimEnd_collapse)

text \<open>
  C9. For every string, the sanitized name is what is left of the input after every character
  other than an ASCII letter, a digit, white space, a hyphen, an underscore or a period is
  removed, cut into its words and joined with single spaces. So it consists of letters,
  digits, hyphens, underscores, periods and plain spaces only; its characters other than white
  space are exactly the letters, digits, hyphens, underscores and periods of the input, in
  order; it has no two spaces in a row; and it neither starts nor ends with white space.
  \<open>DJ X & Y\<close> becomes \<open>DJ X Y\<close> and \<open>Intro/Outro (Live)!\<close> becomes
  \<open>IntroOutro Live\<close>.
\<close>

theorem sanitize_spec:
  "sanitize s = join (js_words (filter filename_char s)) '' ''
   \<and> list_all (\<lambda>c. alnum c \<or> c = CHR '' '' \<or> c = CHR ''-'' \<or> c = CHR ''_'' \<or> c = CHR ''.'') (sanitize s)
   \<and> filter (\<lambda>c. \<not> js_space c) (sanitize s) = filter (\<lambda>c. filename_char c \<and> \<not> js_space c) s
   \<and> \<not> js_includes (sanitize s) ''  ''
   \<and> trimStart (sanitize s) = sanitize s \<and> trimEnd (sanitize s) = sanitize s
   \<and> sanitize ''DJ X & Y'' = ''DJ X Y''
   \<and> sanitize ''Intro/Outro (Live)!'' = ''IntroOutro Live''"
proof -
  have e1: "sanitize ''DJ X & Y'' = ''DJ X Y''" by code_simp
  have e2: "sanitize ''Intro/Outro (Live)!'' = ''IntroOutro Live''" by code_simp
  have t1: "trimStart (sanitize s) = sanitize s" by (simp add: sanitize_def trimStart_trim)
  have t2: "trimEnd (sanitize s) = sanitize s" by (simp add: sanitize_def trimEnd_trim)
  show ?thesis
    by (intro conjI sanitize_words sanitize_chars sanitize_kept sanitize_no_double_space t1 t2 e1 e2)
qed

section \<open>Properties of the CUE parsing adapter\<close>

lemma files_emit [simp]: "files (emit e w) = files w"
  by (simp add: emit_def)

lemma dirs_emit [simp]: "dirs (emit e w) = dirs w"
  by (simp add: emit_def)

lemma events_emit [simp]: "events (emit e w) = events w @ [e]"
  by (simp add: emit_def)

lemma parseCueFile_success:
  assumes "fst (parseCueFile E p w) = Inr r"
  shows "\<exists>sheet. fst (cueParserParse E p (emit (ExistsSync p) w)) = Inr sheet
          \<and> sheet_files sheet \<noteq> []
          \<and> r = \<lparr> ParsedCueFile.title = sheet_title sheet,
                   ParsedCueFile.performer = sheet_performer sheet,
                   audioFileName = file_name (hd (sheet_files sheet)),
                   tracks = sort_key startTimeSeconds
                     (List.map_filter convertTrack (file_tracks (hd (sheet_files sheet)))) \<rparr>"
  using assms
  by (auto simp: parseCueFile_def existsSync_def Let_def split: prod.splits sum.splits if_splits)

text \<open>
  C5. Whenever \<open>parseCueFile\<close> accepts its input, the tracks it returns are in ascending
  order of \<open>startTimeSeconds\<close>, whatever the order of the tracks in the sheet.
\<close>

theorem parseCueFile_sorted:
  assumes "fst (parseCueFile E cueFilePath w) = Inr r"
  shows "sorted (map startTimeSeconds (tracks r))"
  using parseCueFile_success [OF assms] by auto

theorem parseCueFile_sorted_witness:
  "fst (parseCueFile reference_env ''/m/mix.cue'' example_world) = Inr example_parsed
   \<and> sorted (map startTimeSeconds (tracks example_parsed))"
proof -
  have h: "fst (parseCueFile reference_env ''/m/mix.cue'' example_world) = Inr example_parsed"
    by code_simp
  show ?thesis
    using h parseCueFile_sorted [OF h] by simp
qed

lemma parseCueFile_reads_first_file:
  assumes "files w cueFilePath = Some content"
    and "cue_grammar E content = Inr sheet"
    and "sheet_files sheet = f # others"
  shows "parseCueFile E cueFilePath w =
     (if file_tracks f = []
      then (Inl (Error (''No tracks found for audio file '' @ [APOS] @ file_name f @ [APOS] @
                        '' in CUE sheet: '' @ cueFilePath)),
            emit (CueParserParse cueFilePath) (emit (ExistsSync cueFilePath) w))
      else (Inr \<lparr> ParsedCueFile.title = sheet_title sheet,
                  ParsedCueFile.performer = sheet_performer sheet,
                  audioFileName = file_name f,
                  tracks = sort_key startTimeSeconds (List.map_filter convertTrack (file_tracks f)) \<rparr>,
            warnMissing (file_tracks f)
              (emit (CueParserParse cueFilePath) (emit (ExistsSync cueFilePath) w))))"
  using assms
  by (simp add: parseCueFile_def existsSync_def cueParserParse_def emit_def Let_def)

text \<open>
  C10. When the sheet has a first \<open>FILE\<close> entry \<open>f\<close> followed by any others, the result
  of \<open>parseCueFile\<close> (value and trace) is determined by \<open>f\<close> and the sheet's own title and
  performer: the audio file name is the name of \<open>f\<close> and the tracks are the tracks of
  \<open>f\<close> that have an \<open>INDEX 01\<close>, sorted; the other entries are never looked at, not even
  when \<open>f\<close> has no track and the call fails.
\<close>

theorem parseCueFile_first_file:
  assumes "files w cueFilePath = Some content"
    and "cue_grammar E content = Inr sheet"
    and "sheet_files sheet = f # others"
  shows "parseCueFile E cueFilePath w =
     (if file_tracks f = []
      then (Inl (Error (''No tracks found for audio file '' @ [APOS] @ file_name f @ [APOS] @
                        '' in CUE sheet: '' @ cueFilePath)),
            emit (CueParserParse cueFilePath) (emit (ExistsSync cueFilePath) w))
      else (Inr \<lparr> ParsedCueFile.title = sheet_title sheet,
                  ParsedCueFile.performer = sheet_performer sheet,
                  audioFileName = file_name f,
                  tracks = sort_key startTimeSeconds (List.map_filter convertTrack (file_tracks f)) \<rparr>,
            warnMissing (file_tracks f)
              (emit (CueParserParse cueFilePath) (emit (ExistsSync cueFilePath) w))))"
  using assms by (rule parseCueFile_reads_first_file)

theorem parseCueFile_first_file_witness:
  "files two_file_world ''/m/two.cue'' = Some two_file_sheet
   \<and> cue_grammar reference_env two_file_sheet = Inr two_file_parsed
   \<and> length (sheet_files two_file_parsed) = 2
   \<and> fst (parseCueFile reference_env ''/m/two.cue'' two_file_world) =
       Inr \<lparr> ParsedCueFile.title = None, ParsedCueFile.performer = None,
             audioFileName = ''a.mp3'',
             tracks = [\<lparr>trackNumber = 1, CueTrack.title = ''One'', trackName = ''One'',
                        CueTrack.performer = ''Unknown Artist'', startTimeSeconds = 10\<rparr>] \<rparr>
   \<and> events (snd (parseCueFile reference_env ''/m/two.cue'' two_file_world)) =
       [ExistsSync ''/m/two.cue'', CueParserParse ''/m/two.cue'', ConsoleWarn MissingIndex01]"
proof -
  have h1: "files two_file_world ''/m/two.cue'' = Some two_file_sheet"
    by (simp add: two_file_world_def)
  have h2: "cue_grammar reference_env two_file_sheet = Inr two_file_parsed"
    by code_simp
  have h3: "sheet_files two_file_parsed = hd (sheet_files two_file_parsed) # tl (sheet_files two_file_parsed)"
    by (simp add: two_file_parsed_def)
  have h4: "length (sheet_files two_file_parsed) = 2"
    by (simp add: two_file_parsed_def)
  have t: "file_tracks (hd (sheet_files two_file_parsed)) \<noteq> []"
    by (simp add: two_file_parsed_def)
  have r: "sort_key startTimeSeconds (List.map_filter convertTrack (file_tracks (hd (sheet_files two_file_parsed))))
      = [\<lparr>trackNumber = 1, CueTrack.title = ''One'', trackName = ''One'',
                        CueTrack.performer = ''Unknown Artist'', startTimeSeconds = 10\<rparr>]"
    by code_simp
  have e: "events (warnMissing (file_tracks (hd (sheet_files two_file_parsed)))
         (emit (CueParserParse ''/m/two.cue'') (emit (ExistsSync ''/m/two.cue'') two_file_world)))
       = [ExistsSync ''/m/two.cue'', CueParserParse ''/m/two.cue'', ConsoleWarn MissingIndex01]"
    by code_simp
  show ?thesis
    using h1 h2 h4 parseCueFile_first_file [OF h1 h2 h3] t r e
    by (simp add: two_file_parsed_def)
qed

section \<open>Properties of the entry points\<close>

text \<open>
  C8. Each of the three entry points, started with fewer arguments than it requires, prints
  its usage message on the error stream and exits with status 1; the usage line is the only
  event, so no file is touched and no process is started.
\<close>

theorem missing_argument_exits:
  "(length argv < 6 \<longrightarrow>
      main_tracklist2cue E argv w = (ProcessExit 1, emit (ConsoleError (Text usage_tracklist2cue)) w))
   \<and> (length argv < 4 \<longrightarrow>
      main_cue2mp3 E argv w = (ProcessExit 1, emit (ConsoleError (Text usage_cue2mp3)) w))
   \<and> (length argv < 6 \<longrightarrow>
      main_tracklist2mp3 E argv w = (ProcessExit 1, emit (ConsoleError (Text usage_tracklist2mp3)) w))"
  by (simp add: main_tracklist2cue_def main_cue2mp3_def main_tracklist2mp3_def argv_at_def
      falsy_def Let_def)

theorem missing_argument_exits_witness:
  "main_tracklist2cue reference_env [''node'', ''tracklist2cue'', ''list.txt'', ''mix.mp3'', ''out.cue''] empty_world
     = (ProcessExit 1, emit (ConsoleError (Text usage_tracklist2cue)) empty_world)
   \<and> main_cue2mp3 reference_env [''node'', ''cue2mp3'', ''mix.cue''] empty_world
     = (ProcessExit 1, emit (ConsoleError (Text usage_cue2mp3)) empty_world)
   \<and> main_tracklist2mp3 reference_env [''node'', ''tracklist2mp3'', ''list.txt'', ''mix.mp3'', ''Album''] empty_world
     = (ProcessExit 1, emit (ConsoleError (Text usage_tracklist2mp3)) empty_world)"
  using missing_argument_exits [of "[''node'', ''tracklist2cue'', ''list.txt'', ''mix.mp3'', ''out.cue'']" reference_env empty_world]
    missing_argument_exits [of "[''node'', ''cue2mp3'', ''mix.cue'']" reference_env empty_world]
    missing_argument_exits [of "[''node'', ''tracklist2mp3'', ''list.txt'', ''mix.mp3'', ''Album'']" reference_env empty_world]
  by simp

text \<open>
  C7, as the code has it. When the tracklist file does not exist, \<open>convertTracklistToCue\<close>
  catches the failed read, prints the error (which carries the path) on the error stream,
  writes nothing, and returns normally: no error reaches the caller.
\<close>

theorem convertTracklistToCue_missing_input:
  assumes "files w inputFilePath = None"
  shows "convertTracklistToCue E inputFilePath outputFilePath albumTitle audioFilename w =
           (Inr (), w\<lparr>events := events w @
              [ReadFile inputFilePath,
               ConsoleError (ErrorProcessingFiles (FsError ''ENOENT'' inputFilePath))]\<rparr>)"
  using assms by (simp add: convertTracklistToCue_def readFile_def emit_def)

theorem convertTracklistToCue_missing_input_witness:
  "files empty_world ''list.txt'' = None
   \<and> convertTracklistToCue reference_env ''list.txt'' ''out.cue'' ''Album'' ''mix.mp3'' empty_world =
       (Inr (), empty_world\<lparr>events :=
          [ReadFile ''list.txt'', ConsoleError (ErrorProcessingFiles (FsError ''ENOENT'' ''list.txt''))]\<rparr>)"
proof -
  have h: "files empty_world ''list.txt'' = None" by (simp add: empty_world_def)
  show ?thesis
    using h convertTracklistToCue_missing_input [OF h, of reference_env "''out.cue''" "''Album''" "''mix.mp3''"]
    by (simp add: empty_world_def)
qed

text \<open>
  C7 as the specification states it fails. With \<open>list.txt\<close> missing, the conversion
  returns normally instead of failing, and the combined entry point carries on with the CUE
  file that an earlier run left behind: it issues two extraction requests.
\<close>

theorem convertTracklistToCue_missing_input_counterexample:
  "files stale_world ''list.txt'' = None
   \<and> fst (convertTracklistToCue reference_env ''list.txt'' ''/m/list.cue'' ''Album'' ''mix.mp3'' stale_world) = Inr ()
   \<and> length (ffmpegRequests (events (snd (main_tracklist2mp3 reference_env
           [''node'', ''tracklist2mp3'', ''list.txt'', ''mix.mp3'', ''Album'', ''/m''] stale_world)))) = 2"
  by code_simp

section \<open>Properties of the segment planner\<close>

lemma trackWindows_Nil: "trackWindows [] D = []"
  by (simp add: trackWindows_def)

lemma trackWindows_Cons:
  "trackWindows (t # rest) D =
     (t, startTimeSeconds t, (case rest of [] \<Rightarrow> D | n # _ \<Rightarrow> startTimeSeconds n))
     # trackWindows rest D"
proof -
  have "[0 ..< length (t # rest)] = 0 # map Suc [0 ..< length rest]"
    by (simp add: upt_conv_Cons map_Suc_upt del: upt_Suc)
  then show ?thesis
    by (cases rest) (simp_all add: trackWindows_def comp_def del: upt_Suc)
qed

lemma degenerate_simp [simp]: "degenerate (t, s, e) = (s \<ge> e)"
  by (simp add: degenerate_def)

lemma ffmpegRequests_append: "ffmpegRequests (a @ b) = ffmpegRequests a @ ffmpegRequests b"
  by (induction a rule: ffmpegRequests.induct) auto

lemma skipWarnings_append: "skipWarnings (a @ b) = skipWarnings a @ skipWarnings b"
  by (induction a rule: skipWarnings.induct) auto

lemma splitLoop_all_succeed:
  assumes ok: "\<And>h args. \<exists>out err. run_process E h ''ffmpeg'' args = Closed 0 out err"
  shows "\<exists>evs. splitLoop E inp meta dir ext D ts paths w =
           (Inr (paths @ map (pathOf E dir ext) (filter (\<lambda>x. \<not> degenerate x) (trackWindows ts D))),
            w\<lparr>events := events w @ evs\<rparr>)
         \<and> ffmpegRequests evs = map (requestOf E inp meta dir ext) (filter (\<lambda>x. \<not> degenerate x) (trackWindows ts D))
         \<and> skipWarnings evs = map (\<lambda>(t, s, e). (trackNumber t, s, e)) (filter degenerate (trackWindows ts D))"
proof (induction ts arbitrary: paths w)
  case Nil
  show ?case by (rule exI [of _ "[]"]) (simp add: trackWindows_Nil)
next
  case (Cons t rest)
  define s where "s = startTimeSeconds t"
  define e where "e = (case rest of [] \<Rightarrow> D | n # _ \<Rightarrow> startTimeSeconds n)"
  have tw: "trackWindows (t # rest) D = (t, s, e) # trackWindows rest D"
    by (simp add: trackWindows_Cons s_def e_def)
  show ?case
  proof (cases "s \<ge> e")
    case True
    let ?w1 = "emit (ConsoleWarn (SkippingInvalidSegment (trackNumber t) s e)) w"
    from Cons.IH [of paths ?w1] obtain evs where
      r: "splitLoop E inp meta dir ext D rest paths ?w1 =
           (Inr (paths @ map (pathOf E dir ext) (filter (\<lambda>x. \<not> degenerate x) (trackWindows rest D))),
            ?w1\<lparr>events := events ?w1 @ evs\<rparr>)"
      and q: "ffmpegRequests evs = map (requestOf E inp meta dir ext) (filter (\<lambda>x. \<not> degenerate x) (trackWindows rest D))"
      and k: "skipWarnings evs = map (\<lambda>(t, s, e). (trackNumber t, s, e)) (filter degenerate (trackWindows rest D))"
      by blast
    have step: "splitLoop E inp meta dir ext D (t # rest) paths w = splitLoop E inp meta dir ext D rest paths ?w1"
      using True by (simp add: s_def e_def Let_def)
    show ?thesis
      apply (rule exI [of _ "ConsoleWarn (SkippingInvalidSegment (trackNumber t) s e) # evs"])
      unfolding step r tw
      using True q k by (simp add: emit_def)
  next
    case False
    define name where "name = outputFileName ext t"
    define args where "args = ffmpegArgs inp meta t s (e - s) (path_join E dir name)"
    obtain out err where run: "run_process E (events w) ''ffmpeg'' args = Closed 0 out err"
      using ok by blast
    define pre where "pre = Spawn ''ffmpeg'' args #
         (if out = [] then [] else [ConsoleLog (Text (''ffmpeg stdout: '' @ out))]) @
         [ConsoleLog (Text (''Successfully created: '' @ name))]"
    let ?w1 = "w\<lparr>events := events w @ pre\<rparr>"
    from Cons.IH [of "paths @ [path_join E dir name]" ?w1] obtain evs where
      r: "splitLoop E inp meta dir ext D rest (paths @ [path_join E dir name]) ?w1 =
           (Inr ((paths @ [path_join E dir name]) @ map (pathOf E dir ext) (filter (\<lambda>x. \<not> degenerate x) (trackWindows rest D))),
            ?w1\<lparr>events := events ?w1 @ evs\<rparr>)"
      and q: "ffmpegRequests evs = map (requestOf E inp meta dir ext) (filter (\<lambda>x. \<not> degenerate x) (trackWindows rest D))"
      and k: "skipWarnings evs = map (\<lambda>(t, s, e). (trackNumber t, s, e)) (filter degenerate (trackWindows rest D))"
      by blast
    have step: "splitLoop E inp meta dir ext D (t # rest) paths w =
                splitLoop E inp meta dir ext D rest (paths @ [path_join E dir name]) ?w1"
      using False run
      by (simp add: s_def e_def Let_def spawn_def emit_def name_def args_def pre_def)
    show ?thesis
      apply (rule exI [of _ "pre @ evs"])
      unfolding step r tw
      using False q k
      by (simp add: ffmpegRequests_append skipWarnings_append
          pre_def requestOf_def pathOf_def name_def args_def)
  qed
qed

text \<open>
  Whatever the extractions do, the loop issues requests only for windows with start < end,
  in order and without a gap: the requests are a prefix of the list for those windows, and
  the warnings a prefix of the list for the others.
\<close>

lemma splitLoop_requests_prefix:
  "\<exists>evs. events (snd (splitLoop E inp meta dir ext D ts paths w)) = events w @ evs
     \<and> prefix (ffmpegRequests evs)
          (map (requestOf E inp meta dir ext) (filter (\<lambda>x. \<not> degenerate x) (trackWindows ts D)))
     \<and> prefix (skipWarnings evs)
          (map (\<lambda>(t, s, e). (trackNumber t, s, e)) (filter degenerate (trackWindows ts D)))"
proof (induction ts arbitrary: paths w)
  case Nil
  show ?case by (rule exI [of _ "[]"]) (simp add: trackWindows_Nil)
next
  case (Cons t rest)
  define s where "s = startTimeSeconds t"
  define e where "e = (case rest of [] \<Rightarrow> D | n # _ \<Rightarrow> startTimeSeconds n)"
  have tw: "trackWindows (t # rest) D = (t, s, e) # trackWindows rest D"
    by (simp add: trackWindows_Cons s_def e_def)
  show ?case
  proof (cases "s \<ge> e")
    case True
    let ?w1 = "emit (ConsoleWarn (SkippingInvalidSegment (trackNumber t) s e)) w"
    from Cons.IH [of paths ?w1] obtain evs where
      r: "events (snd (splitLoop E inp meta dir ext D rest paths ?w1)) = events ?w1 @ evs"
      and q: "prefix (ffmpegRequests evs) (map (requestOf E inp meta dir ext) (filter (\<lambda>x. \<not> degenerate x) (trackWindows rest D)))"
      and k: "prefix (skipWarnings evs) (map (\<lambda>(t, s, e). (trackNumber t, s, e)) (filter degenerate (trackWindows rest D)))"
      by blast
    have step: "splitLoop E inp meta dir ext D (t # rest) paths w = splitLoop E inp meta dir ext D rest paths ?w1"
      using True by (simp add: s_def e_def Let_def)
    show ?thesis
      apply (rule exI [of _ "ConsoleWarn (SkippingInvalidSegment (trackNumber t) s e) # evs"])
      unfolding step r tw
      using True q k by simp
  next
    case False
    define name where "name = outputFileName ext t"
    define args where "args = ffmpegArgs inp meta t s (e - s) (path_join E dir name)"
    have req: "requestOf E inp meta dir ext (t, s, e) = args"
      by (simp add: requestOf_def args_def name_def)
    show ?thesis
    proof (cases "run_process E (events w) ''ffmpeg'' args")
      case (SpawnError m)
      have step: "events (snd (splitLoop E inp meta dir ext D (t # rest) paths w)) =
            events w @ [Spawn ''ffmpeg'' args,
              ConsoleError (Text (''Failed to start ffmpeg process for '' @ name @ ''. Is '' @ [APOS] @
                        ''ffmpeg'' @ [APOS] @ '' installed and in your system'' @ [APOS] @
                        ''s PATH? Error: '' @ m))]"
        using False SpawnError
        by (simp add: s_def e_def Let_def spawn_def name_def args_def)
      show ?thesis
        unfolding step tw
        apply (rule exI [of _ "[Spawn ''ffmpeg'' args,
              ConsoleError (Text (''Failed to start ffmpeg process for '' @ name @ ''. Is '' @ [APOS] @
                        ''ffmpeg'' @ [APOS] @ '' installed and in your system'' @ [APOS] @
                        ''s PATH? Error: '' @ m))]"])
        using False by (simp add: req)
    next
      case (Closed code out err)
      define logs where "logs = (if out = [] then [] else [ConsoleLog (Text (''ffmpeg stdout: '' @ out))])"
      have quiet: "ffmpegRequests logs = []" "skipWarnings logs = []"
        by (simp_all add: logs_def)
      show ?thesis
      proof (cases "code = 0")
        case True
        define pre where "pre = Spawn ''ffmpeg'' args # logs @
           [ConsoleLog (Text (''Successfully created: '' @ name))]"
        let ?w1 = "w\<lparr>events := events w @ pre\<rparr>"
        from Cons.IH [of "paths @ [path_join E dir name]" ?w1] obtain evs where
          r: "events (snd (splitLoop E inp meta dir ext D rest (paths @ [path_join E dir name]) ?w1)) = events ?w1 @ evs"
          and q: "prefix (ffmpegRequests evs) (map (requestOf E inp meta dir ext) (filter (\<lambda>x. \<not> degenerate x) (trackWindows rest D)))"
          and k: "prefix (skipWarnings evs) (map (\<lambda>(t, s, e). (trackNumber t, s, e)) (filter degenerate (trackWindows rest D)))"
          by blast
        have step: "splitLoop E inp meta dir ext D (t # rest) paths w =
                splitLoop E inp meta dir ext D rest (paths @ [path_join E dir name]) ?w1"
          using False Closed True
          by (simp add: s_def e_def Let_def spawn_def emit_def name_def args_def pre_def logs_def)
        show ?thesis
          apply (rule exI [of _ "pre @ evs"])
          unfolding step r tw
          using False q k quiet
          by (simp add: ffmpegRequests_append skipWarnings_append pre_def req)
      next
        case nonzero: False
        have step: "events (snd (splitLoop E inp meta dir ext D (t # rest) paths w)) =
            events w @ Spawn ''ffmpeg'' args # logs @
              [ConsoleError (Text (''ffmpeg process exited with code '' @ String_of_int code @
                             '' for '' @ name @ ''. Check ffmpeg stderr for details.''))]"
          using False Closed nonzero
          by (simp add: s_def e_def Let_def spawn_def name_def args_def logs_def)
        show ?thesis
          unfolding step tw
          apply (rule exI [of _ "Spawn ''ffmpeg'' args # logs @
              [ConsoleError (Text (''ffmpeg process exited with code '' @ String_of_int code @
                             '' for '' @ name @ ''. Check ffmpeg stderr for details.''))]"])
          using False quiet
          by (simp add: req ffmpegRequests_append skipWarnings_append)
      qed
    qed
  qed
qed

lemma getMp3Duration_ok:
  assumes "\<And>h. run_process E h ''ffprobe'' (ffprobeArgs inp) = Closed 0 pout perr"
    and "parseFloat E (trim pout) = Some D"
  shows "getMp3Duration E inp w = (Inr D, emit (Spawn ''ffprobe'' (ffprobeArgs inp)) w)"
  using assms by (simp add: getMp3Duration_def spawn_def)

lemma splitLoop_requests:
  assumes ok: "\<And>h args. \<exists>out err. run_process E h ''ffmpeg'' args = Closed 0 out err"
  shows "fst (splitLoop E inp meta dir ext D ts paths w) =
           Inr (paths @ map (pathOf E dir ext) (filter (\<lambda>x. \<not> degenerate x) (trackWindows ts D)))"
    and "ffmpegRequests (events (snd (splitLoop E inp meta dir ext D ts paths w))) =
           ffmpegRequests (events w) @
           map (requestOf E inp meta dir ext) (filter (\<lambda>x. \<not> degenerate x) (trackWindows ts D))"
    and "skipWarnings (events (snd (splitLoop E inp meta dir ext D ts paths w))) =
           skipWarnings (events w) @
           map (\<lambda>(t, s, e). (trackNumber t, s, e)) (filter degenerate (trackWindows ts D))"
  using splitLoop_all_succeed [OF ok, of inp meta dir ext D ts paths w]
  by (auto simp: ffmpegRequests_append skipWarnings_append)


lemma quiet_emit:
  "ffmpegRequests [e] = [] \<Longrightarrow> ffmpegRequests (events (emit e w)) = ffmpegRequests (events w)"
  "skipWarnings [e] = [] \<Longrightarrow> skipWarnings (events (emit e w)) = skipWarnings (events w)"
  by (simp_all add: ffmpegRequests_append skipWarnings_append)

lemma quiet_dirs:
  "events (w\<lparr>dirs := d\<rparr>) = events w"
  by simp

lemma splitMp3WithCue_to_loop:
  assumes present: "files w inputFilePath \<noteq> None"
    and nonempty: "tracks cueMetadata \<noteq> []"
    and dir: "mkdir_ok E outputDirectory"
    and probe: "\<And>h. run_process E h ''ffprobe'' (ffprobeArgs inputFilePath) = Closed 0 pout perr"
    and duration: "parseFloat E (trim pout) = Some totalDuration"
  shows "\<exists>w2. splitMp3WithCue E inputFilePath cueMetadata outputDirectory w =
      (case splitLoop E inputFilePath cueMetadata outputDirectory (path_extname E inputFilePath)
              totalDuration (tracks cueMetadata) [] w2 of
         (Inl e, w') \<Rightarrow> (Inl e, w')
       | (Inr ps, w') \<Rightarrow> (Inr ps, emit (ConsoleLog (Text ''MP3 splitting complete!'')) w'))
      \<and> ffmpegRequests (events w2) = ffmpegRequests (events w)
      \<and> skipWarnings (events w2) = skipWarnings (events w)"
proof -
  have c1: "existsSync inputFilePath w' = (True, emit (ExistsSync inputFilePath) w')"
    if "files w' = files w" for w'
    using present that by (simp add: existsSync_def)
  have ne: "''ffprobe'' \<noteq> ''ffmpeg''" by simp
  show ?thesis
  proof (cases "files w outputDirectory \<noteq> None \<or> outputDirectory \<in> dirs w")
    case True
    have c2: "existsSync outputDirectory w' = (True, emit (ExistsSync outputDirectory) w')"
      if "files w' = files w" "dirs w' = dirs w" for w'
      using True that by (simp add: existsSync_def)
    show ?thesis
      apply (rule exI [of _ "emit (ConsoleLog (TotalDuration totalDuration))
          (emit (Spawn ''ffprobe'' (ffprobeArgs inputFilePath))
          (emit (ConsoleLog (Text (''Ensured output directory exists: '' @ outputDirectory)))
          (emit (ExistsSync outputDirectory)
          (emit (ConsoleLog (Text (''Output directory: '' @ outputDirectory)))
          (emit (ConsoleLog (Text (''Number of tracks to split: '' @ String_of_int (int (length (tracks cueMetadata))))))
          (emit (ConsoleLog (Text (''Starting to split: '' @ inputFilePath)))
          (emit (ExistsSync inputFilePath)
          (emit (ConsoleLog (Text ''splitMp3WithCue: ABOUT TO existsSync?'')) w))))))))"])
      apply (intro conjI)
        apply (simp only: splitMp3WithCue_def Let_def c1 c2 files_emit dirs_emit prod.case sum.case
            simp_thms if_False if_True nonempty getMp3Duration_ok [OF probe duration])
       apply (simp only: quiet_emit ffmpegRequests.simps ne if_False)
      apply (simp only: quiet_emit skipWarnings.simps)
      done
  next
    case False
    have c2: "existsSync outputDirectory w' = (False, emit (ExistsSync outputDirectory) w')"
      if "files w' = files w" "dirs w' = dirs w" for w'
      using False that by (simp add: existsSync_def)
    show ?thesis
      apply (rule exI [of _ "emit (ConsoleLog (TotalDuration totalDuration))
          (emit (Spawn ''ffprobe'' (ffprobeArgs inputFilePath))
          (emit (ConsoleLog (Text (''Ensured output directory exists: '' @ outputDirectory)))
          ((emit (Mkdir outputDirectory)
          (emit (ExistsSync outputDirectory)
          (emit (ConsoleLog (Text (''Output directory: '' @ outputDirectory)))
          (emit (ConsoleLog (Text (''Number of tracks to split: '' @ String_of_int (int (length (tracks cueMetadata))))))
          (emit (ConsoleLog (Text (''Starting to split: '' @ inputFilePath)))
          (emit (ExistsSync inputFilePath)
          (emit (ConsoleLog (Text ''splitMp3WithCue: ABOUT TO existsSync?'')) w)))))))
            \<lparr>dirs := insert outputDirectory
                (dirs (emit (ExistsSync outputDirectory)
          (emit (ConsoleLog (Text (''Output directory: '' @ outputDirectory)))
          (emit (ConsoleLog (Text (''Number of tracks to split: '' @ String_of_int (int (length (tracks cueMetadata))))))
          (emit (ConsoleLog (Text (''Starting to split: '' @ inputFilePath)))
          (emit (ExistsSync inputFilePath)
          (emit (ConsoleLog (Text ''splitMp3WithCue: ABOUT TO existsSync?'')) w)))))))\<rparr>)))"])
      apply (intro conjI)
        apply (simp only: splitMp3WithCue_def mkdir_def Let_def c1 c2 files_emit dirs_emit prod.case
            sum.case simp_thms if_False if_True nonempty dir getMp3Duration_ok [OF probe duration])
       apply (simp only: quiet_emit quiet_dirs ffmpegRequests.simps ne if_False)
      apply (simp only: quiet_emit quiet_dirs skipWarnings.simps)
      done
  qed
qed

lemma trackWindows_starts:
  "map (\<lambda>(t, s, e). (t, s)) (trackWindows ts D) = map (\<lambda>t. (t, startTimeSeconds t)) ts"
  by (induction ts) (simp_all add: trackWindows_Nil trackWindows_Cons)




section \<open>Serializing and parsing back\<close>

lemma convertTrack_of:
  assumes "sheetTrackOf i entry t tr"
  shows "convertTrack tr = Some \<lparr> trackNumber = int i + 1, CueTrack.title = Track.title entry,
            trackName = Track.title entry,
            CueTrack.performer = (if artist entry = [] then ''Unknown Artist'' else artist entry),
            startTimeSeconds = cueTimeToSeconds t \<rparr>"
  using assms by (auto simp: sheetTrackOf_def convertTrack_def)

lemma map_filter_map_Some: "map f xs = map Some ys \<Longrightarrow> List.map_filter f xs = ys"
  by (induction xs arbitrary: ys) (auto simp: map_filter_simps)

lemma map_filter_all_Some:
  assumes "\<And>i. i < length xs \<Longrightarrow> f (xs ! i) = Some (g i)"
  shows "List.map_filter f xs = map g [0 ..< length xs]"
proof -
  have "map f xs = map Some (map g [0 ..< length xs])"
    by (rule nth_equalityI) (simp_all add: assms)
  then show ?thesis by (rule map_filter_map_Some)
qed

lemma warnMissing_all_Some:
  assumes "\<And>x. x \<in> set xs \<Longrightarrow> convertTrack x \<noteq> None"
  shows "warnMissing xs w = w"
  using assms unfolding warnMissing_def by (induction xs arbitrary: w) auto




end
